theory Spec2Isabelle
  imports Complex_Main "HOL-Library.Multiset" "HOL-Library.AList"
    "HOL-Library.Char_ord" "HOL-Library.List_Lexorder" "HOL-Library.Sublist"
begin

section \<open>Feature extraction of the training pipeline (modules/training/extract.py)\<close>

subsection \<open>Python list slicing with a stride\<close>

text \<open>
  \<^verbatim>\<open>xs[i::n]\<close> for \<open>n \<ge> 1\<close>: skip \<open>i\<close> elements, keep one, then keep every
  \<open>n\<close>-th one. The first argument counts the elements still to skip.
  Python raises ValueError for a step of zero; both callers evaluate the slice only
  inside \<^verbatim>\<open>for i in range(n)\<close>, hence only with \<open>n \<ge> 1\<close>.
\<close>

fun stride :: "nat \<Rightarrow> nat \<Rightarrow> 'a list \<Rightarrow> 'a list" where
  "stride k n [] = []"
| "stride 0 n (x # xs) = x # stride (n - 1) n xs"
| "stride (Suc k) n (x # xs) = stride k n xs"

text \<open>
  The argument lists of the workers, in the order in which the loop
  \<^verbatim>\<open>for i in range(n)\<close> creates them. \<open>n\<close> is a Python int: a count
  that is zero or negative gives an empty range.
\<close>

definition fan_out :: "'a list \<Rightarrow> int \<Rightarrow> 'a list list" where
  "fan_out xs n = map (\<lambda>i. stride i (nat n) xs) [0..<nat n]"

subsection \<open>Exceptions and floating-point values\<close>

text \<open>
  A value of \<open>error\<close> stands for an instance of Python's \<^verbatim>\<open>Exception\<close> class: the
  exceptions that the operating-system calls, numpy and the audio and model libraries raise.
  A computation that can raise returns \<open>error + 'a\<close>, with \<open>Inl\<close> for the exception.
\<close>

datatype error =
    FileNotFoundError
  | NotADirectoryError
  | IsADirectoryError
  | FileExistsError
  | ValueError
  | AssertionError
  | UnboundLocalError
  | UnicodeEncodeError
  | RuntimeError
  | LibraryError string

text \<open>
  An array entry: a finite number (taken as a real, rounding of the floating-point
  operations left out), an infinity or NaN.
\<close>

datatype fp = Fin real | PInf | NInf | NaN

subsection \<open>FeatureInput: constants and coarse\_f0\<close>

definition f0_bin :: int where "f0_bin = 256"
definition f0_max :: real where "f0_max = 1100.0"
definition f0_min :: real where "f0_min = 50.0"
definition f0_mel_min :: real where "f0_mel_min = 1127 * ln (1 + f0_min / 700)"
definition f0_mel_max :: real where "f0_mel_max = 1127 * ln (1 + f0_max / 700)"

text \<open>\<^verbatim>\<open>np.log\<close>: NaN below zero and minus infinity at zero (with a warning, no exception).\<close>

definition np_log :: "real \<Rightarrow> fp" where
  "np_log x = (if 0 < x then Fin (ln x) else if x = 0 then NInf else NaN)"

text \<open>\<^verbatim>\<open>1127 * np.log(1 + f0 / 700)\<close>, for one entry.\<close>

definition to_mel :: "real \<Rightarrow> fp" where
  "to_mel x = (case np_log (1 + x / 700) of Fin v \<Rightarrow> Fin (1127 * v) | w \<Rightarrow> w)"

text \<open>
  \<^verbatim>\<open>f0_mel[f0_mel > 0] = (f0_mel[f0_mel > 0] - f0_mel_min) * (f0_bin - 2) / (f0_mel_max - f0_mel_min) + 1\<close>,
  for one entry. A comparison with NaN is false, so NaN is left alone.
\<close>

definition rescale :: "fp \<Rightarrow> fp" where
  "rescale v = (case v of
      Fin m \<Rightarrow> if 0 < m
        then Fin ((m - f0_mel_min) * of_int (f0_bin - 2) / (f0_mel_max - f0_mel_min) + 1)
        else Fin m
    | w \<Rightarrow> w)"

text \<open>\<^verbatim>\<open>f0_mel[f0_mel <= 1] = 1\<close>\<close>

definition clip_low :: "fp \<Rightarrow> fp" where
  "clip_low v = (case v of
      Fin m \<Rightarrow> if m \<le> 1 then Fin 1 else Fin m
    | NInf \<Rightarrow> Fin 1
    | w \<Rightarrow> w)"

text \<open>\<^verbatim>\<open>f0_mel[f0_mel > self.f0_bin - 1] = self.f0_bin - 1\<close>\<close>

definition clip_high :: "fp \<Rightarrow> fp" where
  "clip_high v = (case v of
      Fin m \<Rightarrow> if of_int (f0_bin - 1) < m then Fin (of_int (f0_bin - 1)) else Fin m
    | PInf \<Rightarrow> Fin (of_int (f0_bin - 1))
    | w \<Rightarrow> w)"

text \<open>\<^verbatim>\<open>np.rint\<close>: to the nearest integer, a tie to the even one.\<close>

definition rint :: "real \<Rightarrow> int" where
  "rint x = (let f = \<lfloor>x\<rfloor>; d = x - of_int f in
     if d < 1 / 2 then f else if 1 / 2 < d then f + 1 else if even f then f else f + 1)"

definition np_rint :: "fp \<Rightarrow> fp" where
  "np_rint v = (case v of Fin m \<Rightarrow> Fin (of_int (rint m)) | w \<Rightarrow> w)"

text \<open>
  \<^verbatim>\<open>.astype(np.int)\<close>: a finite value is truncated towards zero; NaN and the infinities
  have no integer value and numpy stores the least 64-bit integer for them.
\<close>

definition astype_int :: "fp \<Rightarrow> int" where
  "astype_int v = (case v of
      Fin m \<Rightarrow> if 0 \<le> m then \<lfloor>m\<rfloor> else \<lceil>m\<rceil>
    | _ \<Rightarrow> - (2 ^ 63))"

text \<open>
  \<^verbatim>\<open>coarse_f0\<close>. The reductions \<^verbatim>\<open>max()\<close> and \<^verbatim>\<open>min()\<close> of the final assertion
  raise ValueError on an array without entries.
\<close>

definition coarse_f0 :: "real list \<Rightarrow> error + int list" where
  "coarse_f0 f0 =
    (let f0_mel = map to_mel f0;
         f0_mel = map rescale f0_mel;
         f0_mel = map clip_low f0_mel;
         f0_mel = map clip_high f0_mel;
         f0_coarse = map (astype_int \<circ> np_rint) f0_mel
     in if f0_coarse = [] then Inl ValueError
        else if Max (set f0_coarse) \<le> 255 \<and> 1 \<le> Min (set f0_coarse) then Inr f0_coarse
        else Inl AssertionError)"

subsection \<open>Paths and the file system\<close>

text \<open>
  Paths are POSIX path strings and are compared as strings: the model has no symbolic
  links, no \<^verbatim>\<open>.\<close> or \<^verbatim>\<open>..\<close> components and no doubled or trailing separators in the
  names it stores.
\<close>

type_synonym path = string

text \<open>\<^verbatim>\<open>os.path.join(a, b)\<close>\<close>

definition path_join :: "path \<Rightarrow> path \<Rightarrow> path" where
  "path_join a b =
    (if prefix ''/'' b then b
     else if a = [] \<or> suffix ''/'' a then a @ b
     else a @ ''/'' @ b)"

text \<open>\<^verbatim>\<open>os.path.dirname(p)\<close>: up to the last separator, trailing separators stripped
  unless nothing else is left.\<close>

definition path_dirname :: "path \<Rightarrow> path" where
  "path_dirname p =
    (let head = rev (dropWhile (\<lambda>c. c \<noteq> CHR ''/'') (rev p)) in
     if head \<noteq> [] \<and> head \<noteq> replicate (length head) CHR ''/''
     then rev (dropWhile (\<lambda>c. c = CHR ''/'') (rev head))
     else head)"

text \<open>\<^verbatim>\<open>sub in s\<close> for strings.\<close>

definition contains :: "string \<Rightarrow> string \<Rightarrow> bool" where
  "contains sub s = list_ex (prefix sub) (suffixes s)"

text \<open>The arrays that \<^verbatim>\<open>np.save\<close> writes, and any other file content.\<close>

datatype content =
    FloatArray "real list"
  | IntArray "int list"
  | FloatMatrix "fp list list"
  | Bytes string

datatype node = Dir | File content

text \<open>
  The file system: the nodes that exist, by path. The current directory (the empty
  path as a parent) and the root are always there.
\<close>

type_synonym filesystem = "(path \<times> node) list"

definition path_exists :: "filesystem \<Rightarrow> path \<Rightarrow> bool" where
  "path_exists fs p = (map_of fs p \<noteq> None)"

definition path_isdir :: "filesystem \<Rightarrow> path \<Rightarrow> bool" where
  "path_isdir fs p = (map_of fs p = Some Dir)"

definition is_file :: "filesystem \<Rightarrow> path \<Rightarrow> bool" where
  "is_file fs p = (case map_of fs p of Some (File c) \<Rightarrow> True | _ \<Rightarrow> False)"

text \<open>The name of an entry directly inside directory \<open>d\<close>, if \<open>p\<close> is one.\<close>

definition child_name :: "path \<Rightarrow> path \<Rightarrow> string option" where
  "child_name d p =
    (if prefix (d @ ''/'') p then
       (let n = drop (length d + 1) p in
        if n \<noteq> [] \<and> CHR ''/'' \<notin> set n then Some n else None)
     else None)"

text \<open>\<^verbatim>\<open>os.listdir(d)\<close>, in the arbitrary order of the directory.\<close>

definition listdir :: "filesystem \<Rightarrow> path \<Rightarrow> error + string list" where
  "listdir fs d =
    (if \<not> path_exists fs d then Inl FileNotFoundError
     else if \<not> path_isdir fs d then Inl NotADirectoryError
     else Inr (remdups (List.map_filter (\<lambda>e. child_name d (fst e)) fs)))"

text \<open>The proper ancestors of a path, outermost first (the root left out).\<close>

definition ancestors :: "path \<Rightarrow> path list" where
  "ancestors p = map (\<lambda>i. take i p) (filter (\<lambda>i. p ! i = CHR ''/'') [1..<length p])"

definition mkdir_missing :: "path \<Rightarrow> filesystem \<Rightarrow> filesystem" where
  "mkdir_missing p fs = (if path_exists fs p then fs else fs @ [(p, Dir)])"

text \<open>
  \<^verbatim>\<open>os.makedirs(p, exist_ok=True)\<close>: creates \<open>p\<close> and its missing ancestors; raises when
  \<open>p\<close> or an ancestor is a regular file.
\<close>

definition makedirs :: "filesystem \<Rightarrow> path \<Rightarrow> error + filesystem" where
  "makedirs fs p =
    (if p = [] then Inl FileNotFoundError
     else if list_ex (is_file fs) (ancestors p) then Inl NotADirectoryError
     else if is_file fs p then Inl FileExistsError
     else Inr (fold mkdir_missing (ancestors p @ [p]) fs))"

text \<open>\<^verbatim>\<open>np.save(p, arr)\<close> appends \<^verbatim>\<open>.npy\<close> to a file name that does not end with it.\<close>

definition npy_name :: "path \<Rightarrow> path" where
  "npy_name p = (if suffix ''.npy'' p then p else p @ ''.npy'')"

definition parent_ok :: "filesystem \<Rightarrow> path \<Rightarrow> bool" where
  "parent_ok fs d = (d = [] \<or> d = replicate (length d) CHR ''/'' \<or> path_isdir fs d)"

definition np_save :: "filesystem \<Rightarrow> path \<Rightarrow> content \<Rightarrow> error + filesystem" where
  "np_save fs p c =
    (let q = npy_name p in
     if path_isdir fs q then Inl IsADirectoryError
     else if \<not> parent_ok fs (path_dirname q) then
       (if path_exists fs (path_dirname q) then Inl NotADirectoryError else Inl FileNotFoundError)
     else Inr (AList.update q (File c) fs))"

subsection \<open>Program state, events and the libraries\<close>

datatype message =
    F0Failed nat path error
  | FeatureError error path
  | ContainsNan path

text \<open>
  What a run does besides changing the file system: each call of the pitch extractor,
  each file written by \<^verbatim>\<open>np.save\<close>, each line printed, and each call of
  \<^verbatim>\<open>load_embedder\<close> and of \<^verbatim>\<open>load_transformers_hubert\<close> with its argument.
\<close>

datatype event =
    ComputeF0 path string
  | Save path
  | Print message
  | LoadEmbedder string
  | LoadHubert string

record state =
  files :: filesystem
  trace :: "event list"

definition emit :: "event \<Rightarrow> state \<Rightarrow> state" where
  "emit ev st = st\<lparr>trace := trace st @ [ev]\<rparr>"

definition save_array :: "path \<Rightarrow> content \<Rightarrow> state \<Rightarrow> error + state" where
  "save_array p c st =
    (case np_save (files st) p c of
       Inl e \<Rightarrow> Inl e
     | Inr fs' \<Rightarrow> Inr (emit (Save (npy_name p)) (st\<lparr>files := fs'\<rparr>)))"

text \<open>What \<^verbatim>\<open>soundfile.read\<close> returns: one channel, or frames of several channels.\<close>

datatype audio = Mono "real list" | Multi "real list list"

datatype emb_model = FairseqModel nat | TransformersPair nat

text \<open>
  The libraries and the environment of the module, as parameters: audio decoding, the
  pitch trackers, the loading of the pretrained encoders and their inference (each may
  raise), and the number of CUDA devices. \<open>print_raises\<close> is what \<^verbatim>\<open>print\<close> of a
  message raises on \<^verbatim>\<open>sys.stdout\<close>, if anything: UnicodeEncodeError when the stream
  cannot encode the text, as for a file name outside its encoding. \<open>main_thread\<close> tells
  whether the caller runs on the main thread, where asyncio makes a current event loop on
  demand.
\<close>

record externals =
  librosa_load :: "filesystem \<Rightarrow> path \<Rightarrow> error + real list"
  pitch_ac :: "real list \<Rightarrow> error + real list"
  harvest_stonemask :: "real list \<Rightarrow> error + real list"
  dio_stonemask :: "real list \<Rightarrow> error + real list"
  sf_read :: "filesystem \<Rightarrow> path \<Rightarrow> error + (audio \<times> int)"
  layer_norm :: "real list \<Rightarrow> real list"
  load_embedder :: "string \<Rightarrow> error + (nat \<times> bool)"
  load_transformers_hubert :: "string \<Rightarrow> error + nat"
  hubert_features :: "nat \<Rightarrow> bool \<Rightarrow> nat \<Rightarrow> real list \<Rightarrow> error + fp list list"
  fairseq_features :: "nat \<Rightarrow> bool \<Rightarrow> nat \<Rightarrow> real list \<Rightarrow> error + fp list list"
  device_count :: int
  print_raises :: "message \<Rightarrow> error option"
  main_thread :: bool

text \<open>\<^verbatim>\<open>print(...)\<close>: the line is written, or the exception leaves the call.\<close>

definition py_print :: "externals \<Rightarrow> message \<Rightarrow> state \<Rightarrow> error option \<times> state" where
  "py_print ext msg st =
    (case print_raises ext msg of
       None \<Rightarrow> (None, emit (Print msg) st)
     | Some e \<Rightarrow> (Some e, st))"

subsection \<open>FeatureInput.compute\_f0 and FeatureInput.go\<close>

definition hop :: int where "hop = 160"

text \<open>\<^verbatim>\<open>np.pad(f0, [[a, b]], mode="constant")\<close>: a negative width raises ValueError.\<close>

definition np_pad :: "real list \<Rightarrow> int \<Rightarrow> int \<Rightarrow> error + real list" where
  "np_pad f0 a b =
    (if a < 0 \<or> b < 0 then Inl ValueError
     else Inr (replicate (nat a) 0 @ f0 @ replicate (nat b) 0))"

text \<open>
  \<^verbatim>\<open>compute_f0\<close>. A method other than \<^verbatim>\<open>pm\<close>, \<^verbatim>\<open>harvest\<close> and \<^verbatim>\<open>dio\<close> leaves
  \<^verbatim>\<open>f0\<close> unassigned, and \<^verbatim>\<open>return f0\<close> raises UnboundLocalError.
\<close>

definition compute_f0 :: "externals \<Rightarrow> filesystem \<Rightarrow> path \<Rightarrow> string \<Rightarrow> error + real list" where
  "compute_f0 ext fs path f0_method =
    (case librosa_load ext fs path of
       Inl e \<Rightarrow> Inl e
     | Inr x \<Rightarrow>
        (let p_len = int (length x) div hop in
         if f0_method = ''pm'' then
           (case pitch_ac ext x of
              Inl e \<Rightarrow> Inl e
            | Inr f0 \<Rightarrow>
               (let pad_size = (p_len - int (length f0) + 1) div 2 in
                if 0 < pad_size \<or> 0 < p_len - int (length f0) - pad_size
                then np_pad f0 pad_size (p_len - int (length f0) - pad_size)
                else Inr f0))
         else if f0_method = ''harvest'' then harvest_stonemask ext x
         else if f0_method = ''dio'' then dio_stonemask ext x
         else Inl UnboundLocalError))"

text \<open>
  The body of the \<^verbatim>\<open>try\<close> in \<^verbatim>\<open>go\<close>, for one work item: the exception raised, if
  any, and the state reached (what was written before an exception stays written).
\<close>

definition go_body ::
  "externals \<Rightarrow> string \<Rightarrow> path \<times> path \<times> path \<Rightarrow> state \<Rightarrow> error option \<times> state" where
  "go_body ext f0_method item st =
    (case item of (inp_path, opt_path1, opt_path2) \<Rightarrow>
      if path_exists (files st) (opt_path1 @ ''.npy'')
         \<and> path_exists (files st) (opt_path2 @ ''.npy'')
      then (None, st)
      else
        (let st1 = emit (ComputeF0 inp_path f0_method) st in
         case compute_f0 ext (files st) inp_path f0_method of
           Inl e \<Rightarrow> (Some e, st1)
         | Inr featur_pit \<Rightarrow>
            (case save_array opt_path2 (FloatArray featur_pit) st1 of
               Inl e \<Rightarrow> (Some e, st1)
             | Inr st2 \<Rightarrow>
                (case coarse_f0 featur_pit of
                   Inl e \<Rightarrow> (Some e, st2)
                 | Inr coarse_pit \<Rightarrow>
                    (case save_array opt_path1 (IntArray coarse_pit) st2 of
                       Inl e \<Rightarrow> (Some e, st2)
                     | Inr st3 \<Rightarrow> (None, st3))))))"

text \<open>
  One turn of the loop: the \<^verbatim>\<open>try\<close> with its bare \<^verbatim>\<open>except\<close>. The handler prints
  the index, the input path and the traceback; an exception raised by that \<^verbatim>\<open>print\<close> is
  raised inside the handler and leaves the loop.
\<close>

definition go_item ::
  "externals \<Rightarrow> string \<Rightarrow> nat \<Rightarrow> path \<times> path \<times> path \<Rightarrow> state \<Rightarrow> error option \<times> state" where
  "go_item ext f0_method idx item st =
    (case go_body ext f0_method item st of
       (None, st') \<Rightarrow> (None, st')
     | (Some e, st') \<Rightarrow> py_print ext (F0Failed idx (fst item) e) st')"

fun go_from ::
  "externals \<Rightarrow> string \<Rightarrow> nat \<Rightarrow> (path \<times> path \<times> path) list \<Rightarrow> state
    \<Rightarrow> error option \<times> state" where
  "go_from ext f0_method idx [] st = (None, st)"
| "go_from ext f0_method idx (item # rest) st =
    (case go_item ext f0_method idx item st of
       (None, st') \<Rightarrow> go_from ext f0_method (Suc idx) rest st'
     | (Some e, st') \<Rightarrow> (Some e, st'))"

definition go ::
  "externals \<Rightarrow> (path \<times> path \<times> path) list \<Rightarrow> string \<Rightarrow> state \<Rightarrow> error option \<times> state" where
  "go ext paths f0_method st =
    (if length paths \<noteq> 0 then go_from ext f0_method 0 paths st else (None, st))"

subsection \<open>extract\_f0\<close>

text \<open>The loop that fills \<^verbatim>\<open>names\<close>, over the sorted entries of the dataset directory.\<close>

fun collect_names :: "filesystem \<Rightarrow> path \<Rightarrow> string list \<Rightarrow> error + path list" where
  "collect_names fs dataset_dir [] = Inr []"
| "collect_names fs dataset_dir (pathname # rest) =
    (if path_isdir fs (path_join dataset_dir pathname) then
       (case listdir fs (path_join dataset_dir pathname) of
          Inl e \<Rightarrow> Inl e
        | Inr entries \<Rightarrow>
           (case collect_names fs dataset_dir rest of
              Inl e \<Rightarrow> Inl e
            | Inr names \<Rightarrow>
               Inr (map (path_join pathname) (filter (\<lambda>f. \<not> contains ''spec'' f) (sort entries))
                    @ names)))
     else
       (case collect_names fs dataset_dir rest of
          Inl e \<Rightarrow> Inl e
        | Inr names \<Rightarrow> Inr (pathname # names)))"

definition list_names :: "filesystem \<Rightarrow> path \<Rightarrow> error + path list" where
  "list_names fs dataset_dir =
    (case listdir fs dataset_dir of
       Inl e \<Rightarrow> Inl e
     | Inr entries \<Rightarrow> collect_names fs dataset_dir (sort entries))"

text \<open>The loop that fills \<^verbatim>\<open>paths\<close>.\<close>

definition build_paths :: "path \<Rightarrow> path \<Rightarrow> path \<Rightarrow> path list \<Rightarrow> (path \<times> path \<times> path) list" where
  "build_paths dataset_dir opt_dir_f0 opt_dir_f0_nsf names =
    map (\<lambda>name. (path_join dataset_dir name, path_join opt_dir_f0 name,
                 path_join opt_dir_f0_nsf name))
      (filter (\<lambda>name. \<not> contains ''spec'' (path_join dataset_dir name)) names)"

text \<open>
  The loop over the set of pairs of output directories. A Python set has no fixed order;
  the model takes the order of first occurrence.
\<close>

fun makedirs_pairs :: "filesystem \<Rightarrow> (path \<times> path) list \<Rightarrow> error option \<times> filesystem" where
  "makedirs_pairs fs [] = (None, fs)"
| "makedirs_pairs fs (d # ds) =
    (case makedirs fs (fst d) of
       Inl e \<Rightarrow> (Some e, fs)
     | Inr fs1 \<Rightarrow>
        (case makedirs fs1 (snd d) of
           Inl e \<Rightarrow> (Some e, fs1)
         | Inr fs2 \<Rightarrow> makedirs_pairs fs2 ds))"

definition output_dirs :: "(path \<times> path \<times> path) list \<Rightarrow> (path \<times> path) list" where
  "output_dirs paths =
    remdups (map (\<lambda>p. (path_dirname (fst (snd p)), path_dirname (snd (snd p)))) paths)"

text \<open>
  The worker processes run \<^verbatim>\<open>go\<close> on their batches at the same time; the model runs
  them one after the other, in the order of their creation. An exception that leaves
  \<^verbatim>\<open>go\<close> ends that worker process only: \<^verbatim>\<open>join\<close> in the parent returns all the same.
\<close>

definition run_processes ::
  "externals \<Rightarrow> string \<Rightarrow> (path \<times> path \<times> path) list list \<Rightarrow> state \<Rightarrow> state" where
  "run_processes ext f0_method batches st =
    fold (\<lambda>batch st'. snd (go ext batch f0_method st')) batches st"

text \<open>
  \<^verbatim>\<open>extract_f0\<close>: the exception that leaves the function, if any, and the state reached.
  Everything before the workers is outside any \<^verbatim>\<open>try\<close>.
\<close>

definition extract_f0 ::
  "externals \<Rightarrow> path \<Rightarrow> int \<Rightarrow> string \<Rightarrow> state \<Rightarrow> error option \<times> state" where
  "extract_f0 ext training_dir num_processes f0_method st =
    (let dataset_dir = path_join training_dir ''1_16k_wavs'';
         opt_dir_f0 = path_join training_dir ''2a_f0'';
         opt_dir_f0_nsf = path_join training_dir ''2b_f0nsf''
     in
     if path_exists (files st) opt_dir_f0 \<and> path_exists (files st) opt_dir_f0_nsf
     then (None, st)
     else
       (case makedirs (files st) opt_dir_f0 of
          Inl e \<Rightarrow> (Some e, st)
        | Inr fs1 \<Rightarrow>
       (case makedirs fs1 opt_dir_f0_nsf of
          Inl e \<Rightarrow> (Some e, st\<lparr>files := fs1\<rparr>)
        | Inr fs2 \<Rightarrow>
       (case list_names fs2 dataset_dir of
          Inl e \<Rightarrow> (Some e, st\<lparr>files := fs2\<rparr>)
        | Inr names \<Rightarrow>
       (let paths = build_paths dataset_dir opt_dir_f0 opt_dir_f0_nsf names in
        case makedirs_pairs fs2 (output_dirs paths) of
          (Some e, fs3) \<Rightarrow> (Some e, st\<lparr>files := fs3\<rparr>)
        | (None, fs3) \<Rightarrow>
           (None, run_processes ext f0_method (fan_out paths num_processes)
                    (st\<lparr>files := fs3\<rparr>)))))))"

subsection \<open>extract\_feature\<close>

text \<open>\<^verbatim>\<open>s.replace("wav", "npy")\<close>: every occurrence, scanning from the left.\<close>

fun replace_wav :: "string \<Rightarrow> string" where
  "replace_wav (a # b # c # rest) =
    (if [a, b, c] = ''wav'' then ''npy'' @ replace_wav rest
     else a # replace_wav (b # c # rest))"
| "replace_wav s = s"

text \<open>
  \<^verbatim>\<open>readwave\<close>: the sample rate is asserted; two-dimensional data is averaged over the
  channels (\<^verbatim>\<open>soundfile\<close> gives one or two dimensions, so the second assertion holds).
\<close>

definition readwave :: "externals \<Rightarrow> filesystem \<Rightarrow> path \<Rightarrow> bool \<Rightarrow> error + real list" where
  "readwave ext fs wav_path normalize_flag =
    (case sf_read ext fs wav_path of
       Inl e \<Rightarrow> Inl e
     | Inr (wav, sr) \<Rightarrow>
        if sr \<noteq> 16000 then Inl AssertionError
        else
          (let feats = (case wav of
                          Mono xs \<Rightarrow> xs
                        | Multi rows \<Rightarrow> map (\<lambda>r. sum_list r / real (length r)) rows)
           in Inr (if normalize_flag then layer_norm ext feats else feats)))"

text \<open>
  \<^verbatim>\<open>load_emb_dic\<close>: the first component of an entry is a checkpoint file name or the
  function \<^verbatim>\<open>load_transformers_hubert\<close>.
\<close>

datatype emb_loader = EmbFile string | LoadTransformersHubert

definition load_emb_dic :: "(string \<times> emb_loader \<times> string) list" where
  "load_emb_dic =
    [(''hubert_base'', (EmbFile ''hubert_base.pt'', ''hubert_base'')),
     (''hubert_base768'', (EmbFile ''hubert_base.pt'', ''hubert_base'')),
     (''contentvec'', (EmbFile ''checkpoint_best_legacy_500.pt'', ''contentvec'')),
     (''contentvec768'', (EmbFile ''checkpoint_best_legacy_500.pt'', ''contentvec'')),
     (''distilhubert'', (LoadTransformersHubert, ''ntu-spml/distilhubert'')),
     (''distilhubert768'', (LoadTransformersHubert, ''ntu-spml/distilhubert''))]"

text \<open>
  The loading of the model: \<^verbatim>\<open>load_transformers_hubert\<close> is called with the second
  component of the entry, \<^verbatim>\<open>load_embedder\<close> with the file name, and the call is
  recorded whether it raises or not. The result is the model and \<^verbatim>\<open>cfg\<close>: \<open>None\<close>
  for \<^verbatim>\<open>cfg = None\<close>, otherwise the value of \<^verbatim>\<open>cfg.task.normalize\<close>.
\<close>

definition load_model ::
  "externals \<Rightarrow> emb_loader \<times> string \<Rightarrow> state
    \<Rightarrow> (error + (emb_model \<times> bool option)) \<times> state" where
  "load_model ext entry st =
    (case fst entry of
       LoadTransformersHubert \<Rightarrow>
         (case load_transformers_hubert ext (snd entry) of
            Inl e \<Rightarrow> (Inl e, emit (LoadHubert (snd entry)) st)
          | Inr h \<Rightarrow> (Inr (TransformersPair h, None), emit (LoadHubert (snd entry)) st))
     | EmbFile emb_file \<Rightarrow>
         (case load_embedder ext emb_file of
            Inl e \<Rightarrow> (Inl e, emit (LoadEmbedder emb_file) st)
          | Inr (h, normalize_flag) \<Rightarrow>
              (Inr (FairseqModel h, Some normalize_flag), emit (LoadEmbedder emb_file) st)))"

text \<open>The inference of one waveform on one device, up to \<^verbatim>\<open>feats.squeeze(0).float().cpu().numpy()\<close>.\<close>

definition embed ::
  "externals \<Rightarrow> emb_model \<Rightarrow> bool \<Rightarrow> nat \<Rightarrow> real list \<Rightarrow> error + fp list list" where
  "embed ext model is_feats_dim_768 device feats =
    (case model of
       TransformersPair h \<Rightarrow> hubert_features ext h is_feats_dim_768 device feats
     | FairseqModel h \<Rightarrow> fairseq_features ext h is_feats_dim_768 device feats)"

text \<open>\<^verbatim>\<open>np.isnan(feats).sum()\<close>\<close>

definition nan_count :: "fp list list \<Rightarrow> nat" where
  "nan_count feats = sum_list (map (\<lambda>row. length (filter (\<lambda>v. v = NaN) row)) feats)"

text \<open>The values that \<^verbatim>\<open>process\<close> takes from the enclosing call of \<^verbatim>\<open>extract_feature\<close>.\<close>

record closure =
  wav_dir :: path
  out_dir :: path
  model :: emb_model
  cfg :: "bool option"
  is_feats_dim_768 :: bool

text \<open>The body of the \<^verbatim>\<open>try\<close> in \<^verbatim>\<open>process\<close>, for one file.\<close>

definition process_body ::
  "externals \<Rightarrow> closure \<Rightarrow> nat \<Rightarrow> path \<Rightarrow> state \<Rightarrow> error option \<times> state" where
  "process_body ext cl device file st =
    (if suffix ''.wav'' file then
       (let wav_filepath = path_join (wav_dir cl) file;
            out_filepath = path_join (out_dir cl) (replace_wav file)
        in
        if path_exists (files st) out_filepath then (None, st)
        else
          (case makedirs (files st) (path_dirname out_filepath) of
             Inl e \<Rightarrow> (Some e, st)
           | Inr fs1 \<Rightarrow>
          (let st1 = st\<lparr>files := fs1\<rparr> in
           case readwave ext fs1 wav_filepath
                  (case cfg cl of None \<Rightarrow> False | Some normalize_flag \<Rightarrow> normalize_flag) of
             Inl e \<Rightarrow> (Some e, st1)
           | Inr wave \<Rightarrow>
          (case embed ext (model cl) (is_feats_dim_768 cl) device wave of
             Inl e \<Rightarrow> (Some e, st1)
           | Inr feats \<Rightarrow>
              if nan_count feats = 0 then
                (case save_array out_filepath (FloatMatrix feats) st1 of
                   Inl e \<Rightarrow> (Some e, st1)
                 | Inr st2 \<Rightarrow> (None, st2))
              else py_print ext (ContainsNan file) st1))))
     else (None, st))"

text \<open>
  One turn of the loop: the \<^verbatim>\<open>try\<close> with \<^verbatim>\<open>except Exception\<close>. The handler prints
  the exception and the file name (the traceback goes to \<^verbatim>\<open>stderr\<close>); an exception
  raised by that \<^verbatim>\<open>print\<close> is raised inside the handler and leaves the loop.
\<close>

definition process_item ::
  "externals \<Rightarrow> closure \<Rightarrow> nat \<Rightarrow> path \<Rightarrow> state \<Rightarrow> error option \<times> state" where
  "process_item ext cl device file st =
    (case process_body ext cl device file st of
       (None, st') \<Rightarrow> (None, st')
     | (Some e, st') \<Rightarrow> py_print ext (FeatureError e file) st')"

fun process ::
  "externals \<Rightarrow> closure \<Rightarrow> path list \<Rightarrow> nat \<Rightarrow> state \<Rightarrow> error option \<times> state" where
  "process ext cl [] device st = (None, st)"
| "process ext cl (file # todo) device st =
    (case process_item ext cl device file st of
       (None, st') \<Rightarrow> process ext cl todo device st'
     | (Some e, st') \<Rightarrow> (Some e, st'))"

text \<open>The comprehension that builds \<^verbatim>\<open>todo\<close>: only files inside a subdirectory.\<close>

fun collect_todo :: "filesystem \<Rightarrow> path \<Rightarrow> string list \<Rightarrow> error + path list" where
  "collect_todo fs wdir [] = Inr []"
| "collect_todo fs wdir (d # rest) =
    (if path_isdir fs (path_join wdir d) then
       (case listdir fs (path_join wdir d) of
          Inl e \<Rightarrow> Inl e
        | Inr entries \<Rightarrow>
           (case collect_todo fs wdir rest of
              Inl e \<Rightarrow> Inl e
            | Inr todo \<Rightarrow> Inr (map (path_join d) (sort entries) @ todo)))
     else collect_todo fs wdir rest)"

definition todo_list :: "filesystem \<Rightarrow> path \<Rightarrow> error + path list" where
  "todo_list fs wdir =
    (case listdir fs wdir of
       Inl e \<Rightarrow> Inl e
     | Inr entries \<Rightarrow> collect_todo fs wdir (sort entries))"

text \<open>
  The workers of the executor, one per device, run \<^verbatim>\<open>process\<close> at the same time; the
  model runs them one after the other, device \<open>i\<close> on batch \<open>i\<close>. An exception that
  leaves \<^verbatim>\<open>process\<close> reaches \<^verbatim>\<open>extract_feature\<close> through \<^verbatim>\<open>asyncio.gather\<close>, while
  the other workers run to their end; the model keeps the exception of the first device
  that raised.
\<close>

definition run_workers ::
  "externals \<Rightarrow> closure \<Rightarrow> path list list \<Rightarrow> state \<Rightarrow> error option \<times> state" where
  "run_workers ext cl batches st =
    fold (\<lambda>ib r.
            case process ext cl (snd ib) (fst ib) (snd r) of
              (e, st') \<Rightarrow> (if fst r = None then e else fst r, st'))
      (zip [0..<length batches] batches) (None, st)"

text \<open>
  \<^verbatim>\<open>loop.run_until_complete(asyncio.gather(*[]))\<close>, the call made when there is no
  device: \<^verbatim>\<open>gather\<close> without awaitables makes its future on the current event loop of the
  thread, not on the new loop, and \<^verbatim>\<open>run_until_complete\<close> raises ValueError; on a thread
  without a current loop \<^verbatim>\<open>gather\<close> itself raises RuntimeError.
\<close>

definition gather_nothing :: "externals \<Rightarrow> error" where
  "gather_nothing ext = (if main_thread ext then ValueError else RuntimeError)"

text \<open>
  \<^verbatim>\<open>extract_feature\<close>: the exception that leaves the function or the value returned
  (\<open>None\<close>, or the message about the embedder), and the state reached.
\<close>

definition extract_feature ::
  "externals \<Rightarrow> path \<Rightarrow> string \<Rightarrow> state \<Rightarrow> (error + string option) \<times> state" where
  "extract_feature ext training_dir embedder_name st =
    (let wdir = path_join training_dir ''1_16k_wavs'';
         odir = path_join training_dir ''3_feature256''
     in
     if path_exists (files st) odir then (Inr None, st)
     else
       (case makedirs (files st) odir of
          Inl e \<Rightarrow> (Inl e, st)
        | Inr fs1 \<Rightarrow>
       (let st1 = st\<lparr>files := fs1\<rparr> in
        case map_of load_emb_dic embedder_name of
          None \<Rightarrow> (Inr (Some (''Not supported embedder: '' @ embedder_name)), st1)
        | Some entry \<Rightarrow>
       (case load_model ext entry st1 of
          (Inl e, st2) \<Rightarrow> (Inl e, st2)
        | (Inr (mdl, c), st2) \<Rightarrow>
       (let cl = \<lparr>wav_dir = wdir, out_dir = odir, model = mdl, cfg = c,
                  is_feats_dim_768 = suffix ''768'' embedder_name\<rparr>;
            num_gpus = device_count ext
        in
        case todo_list (files st2) wdir of
          Inl e \<Rightarrow> (Inl e, st2)
        | Inr todo \<Rightarrow>
            if fan_out todo num_gpus = [] then (Inl (gather_nothing ext), st2)
            else
              (case run_workers ext cl (fan_out todo num_gpus) st2 of
                 (None, st3) \<Rightarrow> (Inr None, st3)
               | (Some e, st3) \<Rightarrow> (Inl e, st3)))))))"

subsection \<open>The names that extract\_f0 enumerates\<close>

text \<open>
  What a name of the list \<^verbatim>\<open>names\<close> is: a top-level entry of the dataset directory that
  is not a directory, or \<^verbatim>\<open>sub/f\<close> for an entry \<^verbatim>\<open>f\<close> of a subdirectory \<^verbatim>\<open>sub\<close>.
\<close>

definition mirrored_name :: "filesystem \<Rightarrow> path \<Rightarrow> path \<Rightarrow> bool" where
  "mirrored_name fs dataset_dir name =
    (if CHR ''/'' \<in> set name then
       (let sub = takeWhile (\<lambda>c. c \<noteq> CHR ''/'') name;
            f = drop (length sub + 1) name
        in sub \<noteq> [] \<and> f \<noteq> [] \<and> CHR ''/'' \<notin> set f
           \<and> path_isdir fs (path_join dataset_dir sub))
     else name \<noteq> [] \<and> \<not> path_isdir fs (path_join dataset_dir name))"

subsection \<open>A sample training directory\<close>

text \<open>
  One speaker directory with one waveform, libraries that answer with fixed values, and the
  states that the runs below reach from it.
\<close>

definition demo_decode :: "filesystem \<Rightarrow> path \<Rightarrow> error option" where
  "demo_decode fs p =
    (case map_of fs p of
       None \<Rightarrow> Some FileNotFoundError
     | Some Dir \<Rightarrow> Some IsADirectoryError
     | Some (File c) \<Rightarrow> if c = Bytes ''RIFF'' then None else Some (LibraryError ''decode''))"

definition demo_ext :: externals where
  "demo_ext = \<lparr>
     librosa_load = (\<lambda>fs p. case demo_decode fs p of None \<Rightarrow> Inr (replicate 320 0) | Some e \<Rightarrow> Inl e),
     pitch_ac = (\<lambda>x. Inr [0, 0]),
     harvest_stonemask = (\<lambda>x. Inr [0, 0]),
     dio_stonemask = (\<lambda>x. Inl (LibraryError ''dio'')),
     sf_read = (\<lambda>fs p. case demo_decode fs p of None \<Rightarrow> Inr (Mono [0, 0], 16000) | Some e \<Rightarrow> Inl e),
     layer_norm = (\<lambda>x. x),
     load_embedder = (\<lambda>f. Inr (0, False)),
     load_transformers_hubert = (\<lambda>r. Inr 1),
     hubert_features = (\<lambda>h b d w. Inr [[Fin 0, NaN]]),
     fairseq_features = (\<lambda>h b d w. Inr [[Fin 0, Fin 1]]),
     device_count = 1,
     print_raises = (\<lambda>msg. None),
     main_thread = True\<rparr>"

definition demo_ext_failing :: externals where
  "demo_ext_failing = demo_ext\<lparr>librosa_load := (\<lambda>fs p. Inl (LibraryError ''decode''))\<rparr>"

definition demo_fs :: filesystem where
  "demo_fs =
    [(''d'', Dir), (''d/1_16k_wavs'', Dir), (''d/1_16k_wavs/s'', Dir),
     (''d/1_16k_wavs/s/a.wav'', File (Bytes ''RIFF''))]"

definition demo_state :: state where
  "demo_state = \<lparr>files = demo_fs, trace = []\<rparr>"

definition demo_prepared :: filesystem where
  "demo_prepared = demo_fs @
    [(''d/2a_f0'', Dir), (''d/2b_f0nsf'', Dir), (''d/2a_f0/s'', Dir), (''d/2b_f0nsf/s'', Dir)]"

definition demo_partial :: state where
  "demo_partial = \<lparr>files = demo_prepared,
     trace = [ComputeF0 ''d/1_16k_wavs/s/a.wav'' ''harvest'',
              Print (F0Failed 0 ''d/1_16k_wavs/s/a.wav'' (LibraryError ''decode''))]\<rparr>"

definition demo_done :: state where
  "demo_done = \<lparr>files = demo_prepared @
       [(''d/2b_f0nsf/s/a.wav.npy'', File (FloatArray [0, 0])),
        (''d/2a_f0/s/a.wav.npy'', File (IntArray [1, 1]))],
     trace = [ComputeF0 ''d/1_16k_wavs/s/a.wav'' ''harvest'',
              Save ''d/2b_f0nsf/s/a.wav.npy'', Save ''d/2a_f0/s/a.wav.npy'']\<rparr>"

definition demo_item :: "path \<times> path \<times> path" where
  "demo_item = (''d/1_16k_wavs/s/a.wav'', ''d/2a_f0/s/a.wav'', ''d/2b_f0nsf/s/a.wav'')"

definition demo_featured :: state where
  "demo_featured = \<lparr>files = demo_fs @
       [(''d/3_feature256'', Dir), (''d/3_feature256/s'', Dir),
        (''d/3_feature256/s/a.npy'', File (FloatMatrix [[Fin 0, Fin 1]]))],
     trace = [LoadEmbedder ''hubert_base.pt'', Save ''d/3_feature256/s/a.npy'']\<rparr>"

definition demo_ready :: state where
  "demo_ready = \<lparr>files = demo_prepared, trace = []\<rparr>"

definition demo_ext_no_gpu :: externals where
  "demo_ext_no_gpu = demo_ext\<lparr>device_count := 0\<rparr>"

definition demo_closure :: closure where
  "demo_closure = \<lparr>wav_dir = ''d/1_16k_wavs'', out_dir = ''d/3_feature256'',
     model = FairseqModel 0, cfg = Some False, is_feats_dim_768 = False\<rparr>"

definition demo_closure_hubert :: closure where
  "demo_closure_hubert = demo_closure\<lparr>model := TransformersPair 1, cfg := None\<rparr>"

definition demo_saved :: state where
  "demo_saved = \<lparr>files = demo_fs @ [(''d/3_feature256'', Dir), (''d/3_feature256/s'', Dir),
                 (''d/3_feature256/s/a.npy'', File (FloatMatrix [[Fin 0, Fin 1]]))],
              trace = [Save ''d/3_feature256/s/a.npy'']\<rparr>"

definition demo_nan :: state where
  "demo_nan = \<lparr>files = demo_fs @ [(''d/3_feature256'', Dir), (''d/3_feature256/s'', Dir)],
              trace = [Print (ContainsNan ''s/a.wav'')]\<rparr>"

text \<open>
  A standard output that encodes ASCII only: \<^verbatim>\<open>print\<close> of a message raises
  UnicodeEncodeError when the file name in it has a character outside ASCII. And a second
  waveform of the speaker, with such a name and with a content that no decoder reads; its
  name, relative to the waveform directory, sorts before \<^verbatim>\<open>s/a.wav\<close>.
\<close>

definition message_path :: "message \<Rightarrow> path" where
  "message_path msg =
    (case msg of F0Failed idx p e \<Rightarrow> p | FeatureError e p \<Rightarrow> p | ContainsNan p \<Rightarrow> p)"

definition ascii_only :: "string \<Rightarrow> bool" where
  "ascii_only s = list_all (\<lambda>c. (of_char c :: nat) < 128) s"

definition demo_ext_ascii :: externals where
  "demo_ext_ascii = demo_ext\<lparr>print_raises :=
     (\<lambda>msg. if ascii_only (message_path msg) then None else Some UnicodeEncodeError)\<rparr>"

definition demo_unprintable :: string where
  "demo_unprintable = ''s/A'' @ [CHR 0xE9] @ ''.wav''"

definition demo_fs2 :: filesystem where
  "demo_fs2 = demo_fs @ [(''d/1_16k_wavs/'' @ demo_unprintable, File (Bytes ''junk''))]"

definition demo_state2 :: state where
  "demo_state2 = \<lparr>files = demo_fs2, trace = []\<rparr>"

definition demo_prepared2 :: filesystem where
  "demo_prepared2 = demo_fs2 @
    [(''d/2a_f0'', Dir), (''d/2b_f0nsf'', Dir), (''d/2a_f0/s'', Dir), (''d/2b_f0nsf/s'', Dir)]"

definition demo_ready2 :: state where
  "demo_ready2 = \<lparr>files = demo_prepared2, trace = []\<rparr>"

definition demo_unprintable_item :: "path \<times> path \<times> path" where
  "demo_unprintable_item =
    (''d/1_16k_wavs/'' @ demo_unprintable, ''d/2a_f0/'' @ demo_unprintable,
     ''d/2b_f0nsf/'' @ demo_unprintable)"

definition demo_abandoned :: state where
  "demo_abandoned = \<lparr>files = demo_prepared2,
     trace = [ComputeF0 (''d/1_16k_wavs/'' @ demo_unprintable) ''harvest'']\<rparr>"

definition demo_logged :: state where
  "demo_logged = \<lparr>files = demo_prepared2 @
       [(''d/2b_f0nsf/s/a.wav.npy'', File (FloatArray [0, 0])),
        (''d/2a_f0/s/a.wav.npy'', File (IntArray [1, 1]))],
     trace = [ComputeF0 (''d/1_16k_wavs/'' @ demo_unprintable) ''harvest'',
              Print (F0Failed 0 (''d/1_16k_wavs/'' @ demo_unprintable) (LibraryError ''decode'')),
              ComputeF0 ''d/1_16k_wavs/s/a.wav'' ''harvest'',
              Save ''d/2b_f0nsf/s/a.wav.npy'', Save ''d/2a_f0/s/a.wav.npy'']\<rparr>"

definition demo_loaded2 :: state where
  "demo_loaded2 = \<lparr>files = demo_fs2 @ [(''d/3_feature256'', Dir)],
                  trace = [LoadEmbedder ''hubert_base.pt'']\<rparr>"

definition demo_abandoned_feature :: state where
  "demo_abandoned_feature =
    \<lparr>files = demo_fs2 @ [(''d/3_feature256'', Dir), (''d/3_feature256/s'', Dir)],
     trace = [LoadEmbedder ''hubert_base.pt'']\<rparr>"

definition demo_logged_feature :: state where
  "demo_logged_feature =
    \<lparr>files = demo_fs2 @ [(''d/3_feature256'', Dir), (''d/3_feature256/s'', Dir),
        (''d/3_feature256/s/a.npy'', File (FloatMatrix [[Fin 0, Fin 1]]))],
     trace = [LoadEmbedder ''hubert_base.pt'',
              Print (FeatureError (LibraryError ''decode'') demo_unprintable),
              Save ''d/3_feature256/s/a.npy'']\<rparr>"

subsection \<open>Facts about the fan-out\<close>

lemma stride_Nil_iff: "stride k n xs = [] \<longleftrightarrow> length xs \<le> k"
  by (induction k n xs rule: stride.induct) auto

lemma stride_drop: "stride k n xs = stride 0 n (drop k xs)"
  by (induction k n xs rule: stride.induct) auto












subsection \<open>The range of the coarse pitch\<close>

lemma rint_range:
  assumes "1 \<le> m" and "m \<le> 255"
  shows "1 \<le> rint m \<and> rint m \<le> 255"
proof -
  have lo: "1 \<le> \<lfloor>m\<rfloor>" using assms(1) by linarith
  have hi: "\<lfloor>m\<rfloor> \<le> 255" using assms(2) by linarith
  show ?thesis
  proof (cases "\<lfloor>m\<rfloor> = 255")
    case True
    then have "m - of_int \<lfloor>m\<rfloor> \<le> 0" using assms(2) by simp
    then have "m - of_int \<lfloor>m\<rfloor> < 1 / 2" by linarith
    then show ?thesis using True by (simp add: rint_def Let_def)
  next
    case False
    then have "\<lfloor>m\<rfloor> + 1 \<le> 255" using hi by linarith
    then show ?thesis using lo by (auto simp: rint_def Let_def)
  qed
qed

lemma coarse_entry_range:
  assumes "0 \<le> x"
  shows "1 \<le> (astype_int \<circ> np_rint) (clip_high (clip_low (rescale (to_mel x))))
    \<and> (astype_int \<circ> np_rint) (clip_high (clip_low (rescale (to_mel x)))) \<le> 255"
proof -
  have "0 < 1 + x / 700" using assms by (simp add: add_pos_nonneg)
  then obtain v where v: "to_mel x = Fin v"
    by (simp add: to_mel_def np_log_def)
  obtain w where w: "rescale (Fin v) = Fin w"
    by (cases "0 < v") (simp_all add: rescale_def)
  have "\<exists>m. clip_high (clip_low (Fin w)) = Fin m \<and> 1 \<le> m \<and> m \<le> 255"
  proof (cases "w \<le> 1")
    case True
    then show ?thesis by (simp add: clip_low_def clip_high_def f0_bin_def)
  next
    case False
    then show ?thesis
      by (cases "255 < w") (simp_all add: clip_low_def clip_high_def f0_bin_def)
  qed
  then obtain m where m: "clip_high (clip_low (Fin w)) = Fin m" and b: "1 \<le> m" "m \<le> 255"
    by blast
  from b have "1 \<le> rint m \<and> rint m \<le> 255" by (simp add: rint_range)
  then show ?thesis using v w m by (simp add: np_rint_def astype_int_def)
qed

text \<open>
  C5 (as amended). For every F0 array that has at least one entry and whose entries are all
  non-negative real numbers, \<open>coarse_f0\<close> returns an integer array of the same length
  whose entries all lie between 1 and \<open>f0_bin - 1 = 255\<close>: the final assertion holds.
\<close>

theorem coarse_f0_range:
  assumes "f0 \<noteq> []" and "\<forall>x\<in>set f0. 0 \<le> x"
  shows "\<exists>c. coarse_f0 f0 = Inr c \<and> length c = length f0
    \<and> (\<forall>y\<in>set c. 1 \<le> y \<and> y \<le> f0_bin - 1) \<and> f0_bin - 1 = 255"
proof -
  define c where "c = map (\<lambda>x. (astype_int \<circ> np_rint) (clip_high (clip_low (rescale (to_mel x))))) f0"
  have r: "\<forall>y\<in>set c. 1 \<le> y \<and> y \<le> 255"
    using assms(2) coarse_entry_range by (auto simp: c_def)
  have ne: "c \<noteq> []" using assms(1) by (simp add: c_def)
  then have "Max (set c) \<le> 255" and "1 \<le> Min (set c)"
    using r by simp_all
  then have "coarse_f0 f0 = Inr c"
    using ne by (simp add: coarse_f0_def c_def comp_def)
  then show ?thesis using r by (simp add: c_def f0_bin_def)
qed

theorem coarse_f0_range_witness:
  "[0, 440 :: real] \<noteq> [] \<and> (0::real) \<le> 0 \<and> (0::real) \<le> 440
    \<and> (\<exists>c. coarse_f0 [0, 440] = Inr c \<and> length c = length [0, 440 :: real]
          \<and> (\<forall>y\<in>set c. 1 \<le> y \<and> y \<le> f0_bin - 1) \<and> f0_bin - 1 = 255)"
proof -
  have h1: "[0, 440 :: real] \<noteq> []" by simp
  have h2: "\<forall>x\<in>set [0, 440 :: real]. 0 \<le> x" by simp
  show ?thesis using coarse_f0_range [OF h1 h2] by simp
qed

text \<open>On an array without entries the function raises instead of returning.\<close>

theorem coarse_f0_empty_counterexample: "coarse_f0 [] = Inl ValueError"
  by (simp add: coarse_f0_def)

subsection \<open>Facts about the file system operations\<close>

lemma mkdir_missing_mono: "map_of fs q = Some n \<Longrightarrow> map_of (mkdir_missing p fs) q = Some n"
  by (simp add: mkdir_missing_def)

lemma mkdir_missing_isdir: "\<not> is_file fs p \<Longrightarrow> path_isdir (mkdir_missing p fs) p"
  by (auto simp: mkdir_missing_def path_isdir_def path_exists_def is_file_def map_add_def
      split: option.splits node.splits)

lemma fold_mkdir_missing_mono:
  "map_of fs q = Some n \<Longrightarrow> map_of (fold mkdir_missing ps fs) q = Some n"
  by (induction ps arbitrary: fs) (simp_all add: mkdir_missing_mono)

lemma mkdir_missing_other:
  "q \<noteq> p \<Longrightarrow> map_of (mkdir_missing p fs) q = map_of fs q"
  by (auto simp: mkdir_missing_def map_add_def split: option.splits)

lemma fold_mkdir_missing_other:
  "q \<notin> set ps \<Longrightarrow> map_of (fold mkdir_missing ps fs) q = map_of fs q"
  by (induction ps arbitrary: fs) (simp_all add: mkdir_missing_other)

lemma mkdir_missing_cases:
  "map_of (mkdir_missing p fs) q = map_of fs q \<or> (map_of fs q = None \<and> map_of (mkdir_missing p fs) q = Some Dir)"
  by (auto simp: mkdir_missing_def path_exists_def map_add_def split: option.splits)

lemma fold_mkdir_missing_cases:
  "map_of (fold mkdir_missing ps fs) q = map_of fs q
    \<or> (map_of fs q = None \<and> map_of (fold mkdir_missing ps fs) q = Some Dir)"
proof (induction ps arbitrary: fs)
  case Nil
  show ?case by simp
next
  case (Cons p ps)
  show ?case
    using Cons [of "mkdir_missing p fs"] mkdir_missing_cases [of p fs q]
    by (auto simp: mkdir_missing_mono fold_mkdir_missing_mono)
qed

lemma makedirs_cases:
  assumes "makedirs fs p = Inr fs'"
  shows "map_of fs' q = map_of fs q \<or> (map_of fs q = None \<and> map_of fs' q = Some Dir)"
  using assms fold_mkdir_missing_cases [of "ancestors p @ [p]" fs q]
  by (auto simp: makedirs_def split: if_splits)

lemma makedirs_mono:
  assumes "makedirs fs p = Inr fs'" and "map_of fs q = Some n"
  shows "map_of fs' q = Some n"
  using makedirs_cases [OF assms(1), of q] assms(2) by auto

lemma makedirs_isdir:
  assumes "makedirs fs p = Inr fs'"
  shows "path_isdir fs' p"
proof -
  from assms have nf: "\<not> is_file fs p"
    and fs': "fs' = mkdir_missing p (fold mkdir_missing (ancestors p) fs)"
    by (auto simp: makedirs_def split: if_splits)
  have "\<not> is_file (fold mkdir_missing (ancestors p) fs) p"
    using nf fold_mkdir_missing_cases [of "ancestors p" fs p]
    by (auto simp: is_file_def split: option.splits node.splits)
  then show ?thesis unfolding fs' by (rule mkdir_missing_isdir)
qed

lemma makedirs_files:
  assumes "makedirs fs p = Inr fs'"
  shows "map_of fs' q = Some (File c) \<longleftrightarrow> map_of fs q = Some (File c)"
  using makedirs_cases [OF assms, of q] by auto

lemma np_save_lookup:
  assumes "np_save fs p c = Inr fs'"
  shows "map_of fs' = (map_of fs)(npy_name p \<mapsto> File c)"
  using assms by (auto simp: np_save_def Let_def AList.update_conv' split: if_splits)

lemma np_save_exists:
  assumes "np_save fs p c = Inr fs'" and "path_exists fs q"
  shows "path_exists fs' q"
  using assms by (auto simp: np_save_lookup path_exists_def)

lemma makedirs_exists:
  assumes "makedirs fs p = Inr fs'" and "path_exists fs q"
  shows "path_exists fs' q"
  using assms makedirs_cases [OF assms(1), of q] by (auto simp: path_exists_def)

subsection \<open>Facts about the loops\<close>

lemma files_emit [simp]: "files (emit ev st) = files st"
  by (simp add: emit_def)

lemma trace_emit [simp]: "trace (emit ev st) = trace st @ [ev]"
  by (simp add: emit_def)

lemma save_array_Inr:
  assumes "save_array p c st = Inr st'"
  shows "\<exists>fs'. np_save (files st) p c = Inr fs' \<and> files st' = fs'
    \<and> trace st' = trace st @ [Save (npy_name p)]"
  using assms by (auto simp: save_array_def split: sum.splits)

lemma save_array_exists:
  assumes "save_array p c st = Inr st'" and "path_exists (files st) q"
  shows "path_exists (files st') q"
  using save_array_Inr [OF assms(1)] assms(2) np_save_exists by auto

lemma go_body_exists:
  assumes "path_exists (files st) q"
  shows "path_exists (files (snd (go_body ext m item st))) q"
proof -
  obtain inp o1 o2 where item: "item = (inp, o1, o2)" by (cases item) auto
  show ?thesis
    using assms unfolding item go_body_def
    by (auto simp: Let_def split: sum.splits dest: save_array_exists)
qed

lemma files_py_print [simp]: "files (snd (py_print ext msg st)) = files st"
  by (simp add: py_print_def split: option.splits)

lemma go_item_exists:
  assumes "path_exists (files st) q"
  shows "path_exists (files (snd (go_item ext m idx item st))) q"
  using go_body_exists [OF assms, of ext m item]
  by (cases "go_body ext m item st") (auto simp: go_item_def split: option.splits)

lemma go_from_exists:
  "path_exists (files st) q \<Longrightarrow> path_exists (files (snd (go_from ext m idx items st))) q"
proof (induction items arbitrary: idx st)
  case Nil
  then show ?case by simp
next
  case (Cons item rest)
  obtain r st1 where g: "go_item ext m idx item st = (r, st1)"
    by (cases "go_item ext m idx item st") auto
  have "path_exists (files st1) q"
    using go_item_exists [OF Cons.prems, of ext m idx item] g by simp
  then show ?case using Cons.IH [of st1 "Suc idx"] g by (cases r) simp_all
qed

lemma go_exists:
  "path_exists (files st) q \<Longrightarrow> path_exists (files (snd (go ext items m st))) q"
  by (simp add: go_def go_from_exists)

lemma run_processes_exists:
  "path_exists (files st) q \<Longrightarrow> path_exists (files (run_processes ext m batches st)) q"
  unfolding run_processes_def
  by (induction batches arbitrary: st) (simp_all add: go_exists)

lemma go_from_append:
  "go_from ext m k (xs @ ys) st =
    (case go_from ext m k xs st of
       (None, st') \<Rightarrow> go_from ext m (k + length xs) ys st'
     | (Some e, st') \<Rightarrow> (Some e, st'))"
  by (induction xs arbitrary: k st) (auto split: prod.splits option.splits)

lemma process_append:
  "process ext cl (xs @ ys) dev st =
    (case process ext cl xs dev st of
       (None, st') \<Rightarrow> process ext cl ys dev st'
     | (Some e, st') \<Rightarrow> (Some e, st'))"
  by (induction xs arbitrary: st) (auto split: prod.splits option.splits)

lemma process_body_exists:
  assumes "path_exists (files st) q"
  shows "path_exists (files (snd (process_body ext cl dev file st))) q"
proof -
  have a: "path_exists (files st2) q"
    if "makedirs (files st) d = Inr fs1" and "save_array p c (st\<lparr>files := fs1\<rparr>) = Inr st2"
    for d fs1 p c st2
  proof -
    have "path_exists (files (st\<lparr>files := fs1\<rparr>)) q"
      using makedirs_exists [OF that(1) assms] by simp
    then show ?thesis using save_array_exists [OF that(2)] by blast
  qed
  show ?thesis
    using assms unfolding process_body_def
    by (auto simp: Let_def split: sum.splits dest: makedirs_exists a)
qed

lemma process_item_exists:
  assumes "path_exists (files st) q"
  shows "path_exists (files (snd (process_item ext cl dev file st))) q"
  using process_body_exists [OF assms, of ext cl dev "file"]
  by (cases "process_body ext cl dev file st") (auto simp: process_item_def split: option.splits)

lemma process_exists:
  "path_exists (files st) q \<Longrightarrow> path_exists (files (snd (process ext cl todo dev st))) q"
proof (induction todo arbitrary: st)
  case Nil
  then show ?case by simp
next
  case (Cons f todo)
  obtain r st1 where g: "process_item ext cl dev f st = (r, st1)"
    by (cases "process_item ext cl dev f st") auto
  have "path_exists (files st1) q"
    using process_item_exists [OF Cons.prems, of ext cl dev f] g by simp
  then show ?case using Cons.IH [of st1] g by (cases r) simp_all
qed

lemma run_workers_exists:
  assumes "path_exists (files st) q"
  shows "path_exists (files (snd (run_workers ext cl batches st))) q"
proof -
  have "path_exists (files (snd r)) q \<Longrightarrow>
    path_exists (files (snd (fold (\<lambda>ib r.
            case process ext cl (snd ib) (fst ib) (snd r) of
              (e, st') \<Rightarrow> (if fst r = None then e else fst r, st')) ibs r))) q" for ibs r
  proof (induction ibs arbitrary: r)
    case Nil
    then show ?case by simp
  next
    case (Cons ib ibs)
    obtain e st1 where g: "process ext cl (snd ib) (fst ib) (snd r) = (e, st1)"
      by (cases "process ext cl (snd ib) (fst ib) (snd r)") auto
    have "path_exists (files st1) q"
      using process_exists [OF Cons.prems, of ext cl "snd ib" "fst ib"] g by simp
    then show ?case
      using Cons.IH [of "(if fst r = None then e else fst r, st1)"] g by simp
  qed
  from this [of "(None, st)"] assms show ?thesis
    by (simp add: run_workers_def)
qed

lemma makedirs_pairs_exists:
  "path_exists fs q \<Longrightarrow> path_exists (snd (makedirs_pairs fs ds)) q"
  by (induction ds arbitrary: fs) (auto split: sum.splits dest: makedirs_exists)

subsection \<open>Runs on the sample training directory\<close>

lemma demo_joins:
  "path_join ''d'' ''1_16k_wavs'' = ''d/1_16k_wavs''"
  "path_join ''d'' ''2a_f0'' = ''d/2a_f0''"
  "path_join ''d'' ''2b_f0nsf'' = ''d/2b_f0nsf''"
  "path_join ''d'' ''3_feature256'' = ''d/3_feature256''"
  by code_simp+

lemma demo_not_prepared:
  "path_exists demo_fs ''d/2a_f0'' = False"
  "path_exists demo_fs ''d/2b_f0nsf'' = False"
  "path_exists demo_fs ''d/3_feature256'' = False"
  by code_simp+

lemma demo_makedirs:
  "makedirs demo_fs ''d/2a_f0'' = Inr (demo_fs @ [(''d/2a_f0'', Dir)])"
  "makedirs (demo_fs @ [(''d/2a_f0'', Dir)]) ''d/2b_f0nsf''
     = Inr (demo_fs @ [(''d/2a_f0'', Dir), (''d/2b_f0nsf'', Dir)])"
  by code_simp+

lemma demo_names:
  "list_names (demo_fs @ [(''d/2a_f0'', Dir), (''d/2b_f0nsf'', Dir)]) ''d/1_16k_wavs''
     = Inr [''s/a.wav'']"
  by code_simp

lemma demo_paths:
  "build_paths ''d/1_16k_wavs'' ''d/2a_f0'' ''d/2b_f0nsf'' [''s/a.wav''] = [demo_item]"
  by code_simp

lemma demo_output_dirs:
  "makedirs_pairs (demo_fs @ [(''d/2a_f0'', Dir), (''d/2b_f0nsf'', Dir)]) (output_dirs [demo_item])
     = (None, demo_prepared)"
  by code_simp

lemma demo_fan_out: "fan_out [demo_item] 1 = [[demo_item]]"
  by code_simp

lemma demo_coarse: "coarse_f0 [0, 0] = Inr [1, 1]"
  by (simp add: coarse_f0_def to_mel_def np_log_def rescale_def clip_low_def clip_high_def
      np_rint_def astype_int_def rint_def f0_bin_def)

lemma demo_compute_fails:
  "compute_f0 demo_ext_failing demo_prepared ''d/1_16k_wavs/s/a.wav'' ''harvest''
     = Inl (LibraryError ''decode'')"
  by code_simp

lemma demo_compute:
  "compute_f0 demo_ext demo_prepared ''d/1_16k_wavs/s/a.wav'' ''harvest'' = Inr [0, 0]"
  by code_simp

lemma demo_outputs_missing:
  "path_exists demo_prepared ''d/2a_f0/s/a.wav.npy'' = False"
  "path_exists demo_prepared ''d/2b_f0nsf/s/a.wav.npy'' = False"
  by code_simp+

lemma demo_saves:
  "save_array ''d/2b_f0nsf/s/a.wav'' (FloatArray [0, 0])
      \<lparr>files = demo_prepared, trace = [ComputeF0 ''d/1_16k_wavs/s/a.wav'' ''harvest'']\<rparr>
    = Inr \<lparr>files = demo_prepared @ [(''d/2b_f0nsf/s/a.wav.npy'', File (FloatArray [0, 0]))],
           trace = [ComputeF0 ''d/1_16k_wavs/s/a.wav'' ''harvest'', Save ''d/2b_f0nsf/s/a.wav.npy'']\<rparr>"
  "save_array ''d/2a_f0/s/a.wav'' (IntArray [1, 1])
      \<lparr>files = demo_prepared @ [(''d/2b_f0nsf/s/a.wav.npy'', File (FloatArray [0, 0]))],
       trace = [ComputeF0 ''d/1_16k_wavs/s/a.wav'' ''harvest'', Save ''d/2b_f0nsf/s/a.wav.npy'']\<rparr>
    = Inr demo_done"
  by code_simp+

lemma demo_go_body_fails:
  "go_body demo_ext_failing ''harvest'' demo_item \<lparr>files = demo_prepared, trace = []\<rparr>
    = (Some (LibraryError ''decode''),
       \<lparr>files = demo_prepared, trace = [ComputeF0 ''d/1_16k_wavs/s/a.wav'' ''harvest'']\<rparr>)"
  by (simp add: go_body_def demo_item_def demo_outputs_missing demo_compute_fails emit_def)

lemma demo_go_body:
  "go_body demo_ext ''harvest'' demo_item \<lparr>files = demo_prepared, trace = []\<rparr> = (None, demo_done)"
  by (simp add: go_body_def demo_item_def demo_outputs_missing demo_compute emit_def
      demo_saves demo_coarse)

lemma demo_item_fst: "fst demo_item = ''d/1_16k_wavs/s/a.wav''"
  by (simp add: demo_item_def)

lemma demo_print_ok:
  "print_raises demo_ext msg = None"
  "print_raises demo_ext_failing msg = None"
  by (simp_all add: demo_ext_def demo_ext_failing_def)

lemma demo_failed_run:
  "extract_f0 demo_ext_failing ''d'' 1 ''harvest'' demo_state = (None, demo_partial)"
  by (simp add: extract_f0_def demo_joins demo_state_def demo_not_prepared demo_makedirs
      demo_names demo_paths demo_output_dirs demo_fan_out run_processes_def go_def go_item_def
      demo_go_body_fails py_print_def demo_print_ok emit_def demo_partial_def demo_item_fst)

lemma demo_full_run:
  "extract_f0 demo_ext ''d'' 1 ''harvest'' demo_state = (None, demo_done)"
  by (simp add: extract_f0_def demo_joins demo_state_def demo_not_prepared demo_makedirs
      demo_names demo_paths demo_output_dirs demo_fan_out run_processes_def go_def go_item_def
      demo_go_body)

lemma demo_feature_run:
  "extract_feature demo_ext ''d'' ''hubert_base'' demo_state = (Inr None, demo_featured)"
  by code_simp

subsection \<open>Running the extraction again\<close>

lemma extract_f0_guard:
  assumes "path_exists (files st) (path_join td ''2a_f0'')"
    and "path_exists (files st) (path_join td ''2b_f0nsf'')"
  shows "extract_f0 ext td n m st = (None, st)"
  using assms by (simp add: extract_f0_def)

lemma extract_feature_guard:
  assumes "path_exists (files st) (path_join td ''3_feature256'')"
  shows "extract_feature ext td name st = (Inr None, st)"
  using assms by (simp add: extract_feature_def)

lemma isdir_exists: "path_isdir fs p \<Longrightarrow> path_exists fs p"
  by (simp add: path_isdir_def path_exists_def)

lemma extract_f0_leaves_dirs:
  assumes "extract_f0 ext td n m st = (None, st')"
  shows "path_exists (files st') (path_join td ''2a_f0'')
    \<and> path_exists (files st') (path_join td ''2b_f0nsf'')"
proof (cases "path_exists (files st) (path_join td ''2a_f0'')
    \<and> path_exists (files st) (path_join td ''2b_f0nsf'')")
  case True
  then show ?thesis using assms by (simp add: extract_f0_def)
next
  case False
  then obtain fs1 fs2 names fs3 where
    m1: "makedirs (files st) (path_join td ''2a_f0'') = Inr fs1" and
    m2: "makedirs fs1 (path_join td ''2b_f0nsf'') = Inr fs2" and
    m3: "makedirs_pairs fs2 (output_dirs (build_paths (path_join td ''1_16k_wavs'')
          (path_join td ''2a_f0'') (path_join td ''2b_f0nsf'') names)) = (None, fs3)" and
    st': "st' = run_processes ext m (fan_out (build_paths (path_join td ''1_16k_wavs'')
          (path_join td ''2a_f0'') (path_join td ''2b_f0nsf'') names) n) (st\<lparr>files := fs3\<rparr>)"
    using assms
    by (auto simp: extract_f0_def Let_def split: sum.splits option.splits prod.splits)
  have e1: "path_exists fs2 (path_join td ''2a_f0'')"
    using makedirs_exists [OF m2] isdir_exists [OF makedirs_isdir [OF m1]] by blast
  have e2: "path_exists fs2 (path_join td ''2b_f0nsf'')"
    using isdir_exists [OF makedirs_isdir [OF m2]] .
  have "path_exists fs3 (path_join td ''2a_f0'')" "path_exists fs3 (path_join td ''2b_f0nsf'')"
    using makedirs_pairs_exists [OF e1] makedirs_pairs_exists [OF e2] m3
    by (metis snd_conv)+
  then show ?thesis
    unfolding st' by (simp add: run_processes_exists)
qed

lemma load_model_files:
  "load_model ext entry st = (x, st2) \<Longrightarrow> files st2 = files st"
  by (auto simp: load_model_def split: emb_loader.splits sum.splits prod.splits)

lemma run_workers_exists_result:
  "run_workers ext cl batches st = (x, st3) \<Longrightarrow> path_exists (files st) q
    \<Longrightarrow> path_exists (files st3) q"
  using run_workers_exists [of st q ext cl batches] by simp

lemma extract_feature_leaves_dir:
  assumes "extract_feature ext td name st = (Inr r, st')"
  shows "path_exists (files st') (path_join td ''3_feature256'')"
proof (cases "path_exists (files st) (path_join td ''3_feature256'')")
  case True
  then show ?thesis using assms by (simp add: extract_feature_def)
next
  case False
  then obtain fs1 where m1: "makedirs (files st) (path_join td ''3_feature256'') = Inr fs1"
    using assms by (auto simp: extract_feature_def Let_def split: sum.splits)
  have e1: "path_exists fs1 (path_join td ''3_feature256'')"
    using isdir_exists [OF makedirs_isdir [OF m1]] .
  have e2: "path_exists (files st3) (path_join td ''3_feature256'')"
    if "load_model ext entry (st\<lparr>files := fs1\<rparr>) = (x, st2)"
      and "run_workers ext cl batches st2 = (y, st3)" for entry x st2 cl batches y st3
    using load_model_files [OF that(1)] run_workers_exists_result [OF that(2)] e1 by simp
  show ?thesis
    using assms False m1 e1
    by (auto simp: extract_feature_def Let_def
        split: sum.splits option.splits prod.splits if_splits dest: e2)
qed

text \<open>
  C1 (as amended). Both functions first look for their output directories and return at
  once when they are there. A call that returned has created them, so a later call on the
  same training directory, with any arguments and any libraries, returns at once and leaves
  the state as it is: every existing output file is unchanged, and no further output is
  produced. The same holds in any state in which the output directories exist, as after a
  run that was cut short once they were created.
\<close>

theorem rerun_returns_at_once:
  "(extract_f0 ext td n m st = (None, st') \<longrightarrow> extract_f0 ext' td n' m' st' = (None, st'))
   \<and> (extract_feature ext td name st = (Inr r, st') \<longrightarrow>
        extract_feature ext' td name' st' = (Inr None, st'))
   \<and> (path_exists (files st) (path_join td ''2a_f0'')
        \<and> path_exists (files st) (path_join td ''2b_f0nsf'') \<longrightarrow>
        extract_f0 ext td n m st = (None, st))
   \<and> (path_exists (files st) (path_join td ''3_feature256'') \<longrightarrow>
        extract_feature ext td name st = (Inr None, st))"
  using extract_f0_leaves_dirs [of ext td n m st st'] extract_feature_leaves_dir [of ext td name st r st']
    extract_f0_guard extract_feature_guard
  by blast

theorem rerun_returns_at_once_witness:
  "extract_f0 demo_ext_failing ''d'' 1 ''harvest'' demo_state = (None, demo_partial)
   \<and> extract_f0 demo_ext ''d'' 4 ''pm'' demo_partial = (None, demo_partial)
   \<and> extract_feature demo_ext ''d'' ''hubert_base'' demo_state = (Inr None, demo_featured)
   \<and> extract_feature demo_ext_failing ''d'' ''contentvec'' demo_featured = (Inr None, demo_featured)
   \<and> path_exists (files demo_partial) (path_join ''d'' ''2a_f0'')
   \<and> path_exists (files demo_partial) (path_join ''d'' ''2b_f0nsf'')
   \<and> path_exists (files demo_featured) (path_join ''d'' ''3_feature256'')"
proof -
  have e: "path_exists (files demo_partial) (path_join ''d'' ''2a_f0'')"
    "path_exists (files demo_partial) (path_join ''d'' ''2b_f0nsf'')"
    "path_exists (files demo_featured) (path_join ''d'' ''3_feature256'')"
    by code_simp+
  show ?thesis
    using e demo_failed_run demo_feature_run
      rerun_returns_at_once [of demo_ext_failing "''d''" 1 "''harvest''" demo_state demo_partial
        demo_ext 4 "''pm''"]
      rerun_returns_at_once [of demo_ext "''d''" 1 "''harvest''" demo_state demo_featured
        demo_ext_failing 4 "''pm''" "''hubert_base''" None "''contentvec''"]
    by blast
qed

text \<open>
  A first run in which the audio decoder failed on the only input leaves the output
  directories behind. The second run, with a decoder that works, returns at once: the input
  stays without its outputs, although a run from the start would have produced them.
\<close>

theorem rerun_leaves_input_unprocessed_counterexample:
  "extract_f0 demo_ext_failing ''d'' 1 ''harvest'' demo_state = (None, demo_partial)
   \<and> is_file (files demo_partial) ''d/1_16k_wavs/s/a.wav''
   \<and> \<not> path_exists (files demo_partial) ''d/2a_f0/s/a.wav.npy''
   \<and> extract_f0 demo_ext ''d'' 1 ''harvest'' demo_partial = (None, demo_partial)
   \<and> extract_f0 demo_ext ''d'' 1 ''harvest'' demo_state = (None, demo_done)
   \<and> path_exists (files demo_done) ''d/2a_f0/s/a.wav.npy''"
proof -
  have a: "is_file (files demo_partial) ''d/1_16k_wavs/s/a.wav''"
    "\<not> path_exists (files demo_partial) ''d/2a_f0/s/a.wav.npy''"
    "path_exists (files demo_done) ''d/2a_f0/s/a.wav.npy''"
    "path_exists (files demo_partial) (path_join ''d'' ''2a_f0'')"
    "path_exists (files demo_partial) (path_join ''d'' ''2b_f0nsf'')"
    by code_simp+
  show ?thesis
    using a(1-3) demo_failed_run demo_full_run extract_f0_guard [OF a(4) a(5)]
    by blast
qed

subsection \<open>Items that are skipped and items that raise\<close>

lemma go_body_skip:
  assumes "path_exists (files st) (o1 @ ''.npy'')" and "path_exists (files st) (o2 @ ''.npy'')"
  shows "go_body ext m (inp, o1, o2) st = (None, st)"
  using assms by (simp add: go_body_def)

lemma process_body_skip:
  assumes "suffix ''.wav'' file"
    and "path_exists (files st) (path_join (out_dir cl) (replace_wav file))"
  shows "process_body ext cl dev file st = (None, st)"
  using assms by (simp add: process_body_def)

text \<open>
  C2. An item of \<^verbatim>\<open>go\<close> whose two files \<^verbatim>\<open>opt_path1 + ".npy"\<close> and
  \<^verbatim>\<open>opt_path2 + ".npy"\<close> exist leaves the state as it is: no pitch is computed (no event is
  recorded) and no file is written, and the loop goes on with the next item. In the same
  way a \<^verbatim>\<open>.wav\<close> file of \<^verbatim>\<open>process\<close> whose output path exists leaves the state as it
  is.
\<close>

theorem skip_processed:
  "(path_exists (files st) (opt_path1 @ ''.npy'') \<and> path_exists (files st) (opt_path2 @ ''.npy'')
      \<longrightarrow> go_body ext m (inp_path, opt_path1, opt_path2) st = (None, st)
        \<and> go_item ext m idx (inp_path, opt_path1, opt_path2) st = (None, st)
        \<and> go_from ext m idx ((inp_path, opt_path1, opt_path2) # rest) st
            = go_from ext m (Suc idx) rest st)
   \<and> (suffix ''.wav'' file
        \<and> path_exists (files st) (path_join (out_dir cl) (replace_wav file))
      \<longrightarrow> process_body ext cl dev file st = (None, st)
        \<and> process_item ext cl dev file st = (None, st)
        \<and> process ext cl (file # todo) dev st = process ext cl todo dev st)"
  by (simp add: go_body_skip process_body_skip go_item_def process_item_def)

text \<open>
  What the handlers do with an exception \<open>e\<close> of the body: when the \<^verbatim>\<open>print\<close>
  succeeds, the message is logged and the loop continues with exactly the items after
  this one; when the \<^verbatim>\<open>print\<close> raises \<open>e'\<close>, that exception leaves the loop and the
  items after this one are not taken.
\<close>

lemma go_item_raise:
  assumes "go_body ext m x st = (Some e, st1)"
  shows "go_item ext m idx x st = py_print ext (F0Failed idx (fst x) e) st1"
  using assms by (simp add: go_item_def)

lemma process_item_raise:
  assumes "process_body ext cl dev f st = (Some e, st1)"
  shows "process_item ext cl dev f st = py_print ext (FeatureError e f) st1"
  using assms by (simp add: process_item_def)

lemma go_logs_and_continues:
  assumes "go_from ext m 0 xs st = (None, st0)"
    and "go_body ext m x st0 = (Some e, st1)"
    and "print_raises ext (F0Failed (length xs) (fst x) e) = None"
  shows "go ext (xs @ x # ys) m st
    = go_from ext m (Suc (length xs)) ys (emit (Print (F0Failed (length xs) (fst x) e)) st1)"
  using assms by (simp add: go_def go_from_append go_item_raise py_print_def)

lemma go_handler_raises:
  assumes "go_from ext m 0 xs st = (None, st0)"
    and "go_body ext m x st0 = (Some e, st1)"
    and "print_raises ext (F0Failed (length xs) (fst x) e) = Some e'"
  shows "go ext (xs @ x # ys) m st = (Some e', st1)"
  using assms by (simp add: go_def go_from_append go_item_raise py_print_def)

lemma process_logs_and_continues:
  assumes "process ext cl fs dev st = (None, st0)"
    and "process_body ext cl dev f st0 = (Some e, st1)"
    and "print_raises ext (FeatureError e f) = None"
  shows "process ext cl (fs @ f # gs) dev st
    = process ext cl gs dev (emit (Print (FeatureError e f)) st1)"
  using assms by (simp add: process_append process_item_raise py_print_def)

lemma process_handler_raises:
  assumes "process ext cl fs dev st = (None, st0)"
    and "process_body ext cl dev f st0 = (Some e, st1)"
    and "print_raises ext (FeatureError e f) = Some e'"
  shows "process ext cl (fs @ f # gs) dev st = (Some e', st1)"
  using assms by (simp add: process_append process_item_raise py_print_def)

subsection \<open>The outputs of one item\<close>

lemma np_save_files:
  assumes "np_save fs p c = Inr fs'"
  shows "fs' = AList.update (npy_name p) (File c) fs"
  using assms by (auto simp: np_save_def Let_def split: if_splits)

lemma save_array_result:
  assumes "save_array p c st = Inr st'"
  shows "files st' = AList.update (npy_name p) (File c) (files st)
    \<and> trace st' = trace st @ [Save (npy_name p)]"
  using save_array_Inr [OF assms] np_save_files by auto

text \<open>
  C6. For a work item that \<^verbatim>\<open>go\<close> does not skip and that raises nothing, the pitch is
  computed once and exactly two files are written: the contour of \<^verbatim>\<open>compute_f0\<close> by
  \<^verbatim>\<open>np.save(opt_path2, ...)\<close> and \<^verbatim>\<open>coarse_f0\<close> of that same contour by
  \<^verbatim>\<open>np.save(opt_path1, ...)\<close>; every other path of the file system is as before.
\<close>

theorem two_pitch_files:
  assumes "\<not> (path_exists (files st) (opt_path1 @ ''.npy'')
            \<and> path_exists (files st) (opt_path2 @ ''.npy''))"
    and "go_body ext m (inp_path, opt_path1, opt_path2) st = (None, st')"
  shows "\<exists>featur_pit coarse_pit.
      compute_f0 ext (files st) inp_path m = Inr featur_pit
    \<and> coarse_f0 featur_pit = Inr coarse_pit
    \<and> trace st' = trace st @ [ComputeF0 inp_path m, Save (npy_name opt_path2), Save (npy_name opt_path1)]
    \<and> files st' = AList.update (npy_name opt_path1) (File (IntArray coarse_pit))
        (AList.update (npy_name opt_path2) (File (FloatArray featur_pit)) (files st))
    \<and> map_of (files st') (npy_name opt_path1) = Some (File (IntArray coarse_pit))
    \<and> (npy_name opt_path1 \<noteq> npy_name opt_path2 \<longrightarrow>
         map_of (files st') (npy_name opt_path2) = Some (File (FloatArray featur_pit)))
    \<and> (\<forall>q. q \<noteq> npy_name opt_path1 \<and> q \<noteq> npy_name opt_path2 \<longrightarrow>
         map_of (files st') q = map_of (files st) q)"
proof -
  from assms obtain f0 st2 c where
    c1: "compute_f0 ext (files st) inp_path m = Inr f0" and
    s1: "save_array opt_path2 (FloatArray f0) (emit (ComputeF0 inp_path m) st) = Inr st2" and
    c2: "coarse_f0 f0 = Inr c" and
    s2: "save_array opt_path1 (IntArray c) st2 = Inr st'"
    by (auto simp: go_body_def Let_def split: sum.splits if_splits)
  note r1 = save_array_result [OF s1]
  note r2 = save_array_result [OF s2]
  have f: "files st' = AList.update (npy_name opt_path1) (File (IntArray c))
        (AList.update (npy_name opt_path2) (File (FloatArray f0)) (files st))"
    using r1 r2 by simp
  have t: "trace st' = trace st @ [ComputeF0 inp_path m, Save (npy_name opt_path2), Save (npy_name opt_path1)]"
    using r1 r2 by simp
  show ?thesis
    using c1 c2 f t by (simp add: AList.update_conv')
qed

lemma replace_wav_other:
  "c \<notin> set ''wav'' \<Longrightarrow> replace_wav (c # u) = c # replace_wav u"
  by (cases u rule: replace_wav.cases) auto

lemma replace_wav_other2:
  "c \<notin> set ''wav'' \<Longrightarrow> replace_wav (b # c # u) = b # c # replace_wav u"
  by (cases u) (auto simp: replace_wav_other)

lemma replace_wav_split:
  "c \<notin> set ''wav'' \<Longrightarrow> replace_wav (t @ c # u) = replace_wav t @ c # replace_wav u"
  by (induction t rule: replace_wav.induct)
    (simp_all add: replace_wav_other replace_wav_other2)

lemma replace_wav_suffix:
  assumes "suffix ''.wav'' file"
  shows "suffix ''.npy'' (replace_wav file)"
proof -
  from assms obtain t where "file = t @ CHR ''.'' # ''wav''"
    by (auto simp: suffix_def)
  then have "replace_wav file = replace_wav t @ ''.npy''"
    by (simp add: replace_wav_split)
  then show ?thesis by (simp add: suffix_def)
qed

lemma path_join_suffix:
  "suffix s b \<Longrightarrow> suffix s (path_join a b)"
  by (auto simp: path_join_def suffix_def)

lemma npy_name_out:
  "suffix ''.wav'' file \<Longrightarrow> npy_name (path_join d (replace_wav file)) = path_join d (replace_wav file)"
  by (simp add: npy_name_def path_join_suffix replace_wav_suffix)

text \<open>
  C8. For a \<^verbatim>\<open>.wav\<close> file that \<^verbatim>\<open>process\<close> does not skip and that raises nothing, the
  feature array is saved at the output path, which ends in \<^verbatim>\<open>.npy\<close>, when it has no NaN
  entry; when it has one, only the message is printed and the regular files are those from
  before (the parent directory of the output has been created in both cases).
\<close>

theorem nan_guard:
  assumes "suffix ''.wav'' file"
    and "\<not> path_exists (files st) (path_join (out_dir cl) (replace_wav file))"
    and "process_body ext cl dev file st = (None, st')"
  shows "\<exists>fs1 wave feats.
      makedirs (files st) (path_dirname (path_join (out_dir cl) (replace_wav file))) = Inr fs1
    \<and> readwave ext fs1 (path_join (wav_dir cl) file)
          (case cfg cl of None \<Rightarrow> False | Some b \<Rightarrow> b) = Inr wave
    \<and> embed ext (model cl) (is_feats_dim_768 cl) dev wave = Inr feats
    \<and> (nan_count feats = 0 \<longrightarrow>
          files st' = AList.update (path_join (out_dir cl) (replace_wav file))
                        (File (FloatMatrix feats)) fs1
        \<and> trace st' = trace st @ [Save (path_join (out_dir cl) (replace_wav file))])
    \<and> (nan_count feats \<noteq> 0 \<longrightarrow>
          files st' = fs1 \<and> trace st' = trace st @ [Print (ContainsNan file)]
        \<and> (\<forall>q c. map_of (files st') q = Some (File c) \<longleftrightarrow> map_of (files st) q = Some (File c)))
    \<and> suffix ''.npy'' (path_join (out_dir cl) (replace_wav file))
    \<and> (nan_count feats = 0 \<longleftrightarrow> (\<forall>row\<in>set feats. NaN \<notin> set row))"
proof -
  let ?out = "path_join (out_dir cl) (replace_wav file)"
  from assms obtain fs1 wave feats where
    m: "makedirs (files st) (path_dirname ?out) = Inr fs1" and
    r: "readwave ext fs1 (path_join (wav_dir cl) file)
          (case cfg cl of None \<Rightarrow> False | Some b \<Rightarrow> b) = Inr wave" and
    e: "embed ext (model cl) (is_feats_dim_768 cl) dev wave = Inr feats" and
    s: "nan_count feats = 0 \<longrightarrow>
          (\<exists>st2. save_array ?out (FloatMatrix feats) (st\<lparr>files := fs1\<rparr>) = Inr st2 \<and> st' = st2)" and
    n: "nan_count feats \<noteq> 0 \<longrightarrow> st' = emit (Print (ContainsNan file)) (st\<lparr>files := fs1\<rparr>)"
    by (auto simp: process_body_def py_print_def Let_def
        split: sum.splits if_splits option.splits)
  have a: "nan_count feats = 0 \<longrightarrow>
          files st' = AList.update ?out (File (FloatMatrix feats)) fs1
        \<and> trace st' = trace st @ [Save ?out]"
    using s save_array_result npy_name_out [OF assms(1), of "out_dir cl"] by fastforce
  have b: "nan_count feats \<noteq> 0 \<longrightarrow>
          files st' = fs1 \<and> trace st' = trace st @ [Print (ContainsNan file)]
        \<and> (\<forall>q c. map_of (files st') q = Some (File c) \<longleftrightarrow> map_of (files st) q = Some (File c))"
    using n makedirs_files [OF m] by simp
  have c: "nan_count feats = 0 \<longleftrightarrow> (\<forall>row\<in>set feats. NaN \<notin> set row)"
    by (auto simp: nan_count_def filter_empty_conv)
  have d: "suffix ''.npy'' ?out"
    using path_join_suffix [OF replace_wav_suffix [OF assms(1)]] .
  show ?thesis
    by (rule exI [of _ fs1], rule exI [of _ wave], rule exI [of _ feats])
      (intro conjI m r e a b c d)
qed

subsection \<open>The embedder table and the device count\<close>

lemma unsupported_lookup:
  assumes "embedder_name \<notin> {''hubert_base'', ''hubert_base768'', ''contentvec'',
      ''contentvec768'', ''distilhubert'', ''distilhubert768''}"
  shows "map_of load_emb_dic embedder_name = None"
  using assms by (simp add: load_emb_dic_def)

text \<open>
  C9. On a training directory where \<^verbatim>\<open>3_feature256\<close> does not exist yet and can be created,
  a call with an embedder name outside the six keys returns the message, writes no file and
  records no event, but leaves the directory \<^verbatim>\<open>3_feature256\<close> behind; every later call on
  that state, with any libraries and any embedder name, returns at once.
\<close>

theorem unsupported_embedder:
  assumes "embedder_name \<notin> {''hubert_base'', ''hubert_base768'', ''contentvec'',
      ''contentvec768'', ''distilhubert'', ''distilhubert768''}"
    and "\<not> path_exists (files st) (path_join training_dir ''3_feature256'')"
    and "makedirs (files st) (path_join training_dir ''3_feature256'') = Inr fs1"
  shows "extract_feature ext training_dir embedder_name st
      = (Inr (Some (''Not supported embedder: '' @ embedder_name)), st\<lparr>files := fs1\<rparr>)
    \<and> path_isdir fs1 (path_join training_dir ''3_feature256'')
    \<and> (\<forall>q c. map_of fs1 q = Some (File c) \<longleftrightarrow> map_of (files st) q = Some (File c))
    \<and> trace (st\<lparr>files := fs1\<rparr>) = trace st
    \<and> (\<forall>ext' name'. extract_feature ext' training_dir name' (st\<lparr>files := fs1\<rparr>)
          = (Inr None, st\<lparr>files := fs1\<rparr>))"
proof -
  have d: "path_isdir fs1 (path_join training_dir ''3_feature256'')"
    using makedirs_isdir [OF assms(3)] .
  then have "path_exists (files (st\<lparr>files := fs1\<rparr>)) (path_join training_dir ''3_feature256'')"
    by (simp add: isdir_exists)
  then have g: "\<forall>ext' name'. extract_feature ext' training_dir name' (st\<lparr>files := fs1\<rparr>)
          = (Inr None, st\<lparr>files := fs1\<rparr>)"
    by (simp add: extract_feature_guard)
  have r: "extract_feature ext training_dir embedder_name st
      = (Inr (Some (''Not supported embedder: '' @ embedder_name)), st\<lparr>files := fs1\<rparr>)"
    using assms(2,3) unsupported_lookup [OF assms(1)]
    by (simp add: extract_feature_def)
  show ?thesis
    using r d g makedirs_files [OF assms(3)] by simp
qed

lemma fan_out_zero: "n \<le> 0 \<Longrightarrow> fan_out xs n = []"
  by (simp add: fan_out_def)

lemma load_model_cases:
  "load_model ext entry st =
    (case fst entry of
       EmbFile emb_file \<Rightarrow>
         (case load_embedder ext emb_file of
            Inl e \<Rightarrow> Inl e
          | Inr (h, normalize_flag) \<Rightarrow> Inr (FairseqModel h, Some normalize_flag),
          emit (LoadEmbedder emb_file) st)
     | LoadTransformersHubert \<Rightarrow>
         (case load_transformers_hubert ext (snd entry) of
            Inl e \<Rightarrow> Inl e
          | Inr h \<Rightarrow> Inr (TransformersPair h, None),
          emit (LoadHubert (snd entry)) st))"
  by (simp add: load_model_def split: emb_loader.splits sum.splits prod.splits)

lemma extract_feature_no_device:
  assumes "device_count ext = 0"
    and "map_of load_emb_dic embedder_name = Some entry"
    and "\<not> path_exists (files st) (path_join training_dir ''3_feature256'')"
    and "makedirs (files st) (path_join training_dir ''3_feature256'') = Inr fs1"
  shows "extract_feature ext training_dir embedder_name st =
    (case fst (load_model ext entry (st\<lparr>files := fs1\<rparr>)) of
       Inl e \<Rightarrow> Inl e
     | Inr loaded \<Rightarrow>
        (case todo_list fs1 (path_join training_dir ''1_16k_wavs'') of
           Inl e \<Rightarrow> Inl e
         | Inr todo \<Rightarrow> Inl (gather_nothing ext)),
     emit (case fst entry of EmbFile emb_file \<Rightarrow> LoadEmbedder emb_file
                           | LoadTransformersHubert \<Rightarrow> LoadHubert (snd entry))
       (st\<lparr>files := fs1\<rparr>))"
  using assms
  by (cases "fst entry")
    (auto simp: extract_feature_def load_model_cases fan_out_zero Let_def
      split: sum.splits prod.splits)

lemma no_device_frame:
  assumes "device_count ext = 0"
  shows "(\<forall>q c. map_of (files (snd (extract_feature ext training_dir embedder_name st))) q
                  = Some (File c) \<longleftrightarrow> map_of (files st) q = Some (File c))
    \<and> (trace (snd (extract_feature ext training_dir embedder_name st)) = trace st
        \<or> (\<exists>emb_file. trace (snd (extract_feature ext training_dir embedder_name st))
              = trace st @ [LoadEmbedder emb_file])
        \<or> (\<exists>repo. trace (snd (extract_feature ext training_dir embedder_name st))
              = trace st @ [LoadHubert repo]))"
proof (cases "path_exists (files st) (path_join training_dir ''3_feature256'')")
  case True
  then show ?thesis by (simp add: extract_feature_def)
next
  case False
  note absent = this
  show ?thesis
  proof (cases "makedirs (files st) (path_join training_dir ''3_feature256'')")
    case (Inl e)
    then show ?thesis using absent by (simp add: extract_feature_def)
  next
    case (Inr fs1)
    note mk = this
    show ?thesis
    proof (cases "map_of load_emb_dic embedder_name")
      case None
      then show ?thesis using absent mk makedirs_files [OF mk]
        by (simp add: extract_feature_def)
    next
      case (Some entry)
      show ?thesis
        using makedirs_files [OF mk]
        by (cases "fst entry")
          (simp_all add: extract_feature_no_device [OF assms Some absent mk])
    qed
  qed
qed

text \<open>
  C10. With a device count of zero, a call of \<^verbatim>\<open>extract_feature\<close> with a supported
  embedder that passes the guard creates the directory \<^verbatim>\<open>3_feature256\<close> and calls
  the loader of the entry: that call is the one event recorded, and an exception of the
  loader is the exception of the call. The fan-out has no batch, so no worker runs: no
  file is processed and the file system is the one left by \<^verbatim>\<open>makedirs\<close>, with the
  regular files from before. The call does not return: when the model is loaded and the
  waveform directory is listed, \<^verbatim>\<open>run_until_complete\<close> of the empty \<^verbatim>\<open>gather\<close> raises
  ValueError (RuntimeError off the main thread). Whatever the state and the embedder name,
  a call with no device writes no regular file and records no event but that of the
  loader.
\<close>

theorem zero_gpu_no_worker:
  assumes "device_count ext = 0"
  shows "(map_of load_emb_dic embedder_name = Some entry
        \<and> \<not> path_exists (files st) (path_join training_dir ''3_feature256'')
        \<and> makedirs (files st) (path_join training_dir ''3_feature256'') = Inr fs1
      \<longrightarrow> path_isdir fs1 (path_join training_dir ''3_feature256'')
        \<and> files (snd (extract_feature ext training_dir embedder_name st)) = fs1
        \<and> trace (snd (extract_feature ext training_dir embedder_name st))
            = trace st @ [case fst entry of
                            EmbFile emb_file \<Rightarrow> LoadEmbedder emb_file
                          | LoadTransformersHubert \<Rightarrow> LoadHubert (snd entry)]
        \<and> (\<forall>e. (case fst entry of
                   EmbFile emb_file \<Rightarrow> load_embedder ext emb_file = Inl e
                 | LoadTransformersHubert \<Rightarrow> load_transformers_hubert ext (snd entry) = Inl e)
              \<longrightarrow> fst (extract_feature ext training_dir embedder_name st) = Inl e)
        \<and> (\<forall>todo. (case fst entry of
                      EmbFile emb_file \<Rightarrow> \<exists>loaded. load_embedder ext emb_file = Inr loaded
                    | LoadTransformersHubert \<Rightarrow>
                        \<exists>loaded. load_transformers_hubert ext (snd entry) = Inr loaded)
                \<and> todo_list fs1 (path_join training_dir ''1_16k_wavs'') = Inr todo
              \<longrightarrow> fan_out todo (device_count ext) = []
                \<and> fst (extract_feature ext training_dir embedder_name st)
                    = Inl (if main_thread ext then ValueError else RuntimeError))
        \<and> (\<forall>r. fst (extract_feature ext training_dir embedder_name st) \<noteq> Inr r))
    \<and> (\<forall>q c. map_of (files (snd (extract_feature ext training_dir embedder_name st))) q
                  = Some (File c) \<longleftrightarrow> map_of (files st) q = Some (File c))
    \<and> (trace (snd (extract_feature ext training_dir embedder_name st)) = trace st
        \<or> (\<exists>emb_file. trace (snd (extract_feature ext training_dir embedder_name st))
              = trace st @ [LoadEmbedder emb_file])
        \<or> (\<exists>repo. trace (snd (extract_feature ext training_dir embedder_name st))
              = trace st @ [LoadHubert repo]))"
proof -
  have 1: "path_isdir fs1 (path_join training_dir ''3_feature256'')
        \<and> files (snd (extract_feature ext training_dir embedder_name st)) = fs1
        \<and> trace (snd (extract_feature ext training_dir embedder_name st))
            = trace st @ [case fst entry of
                            EmbFile emb_file \<Rightarrow> LoadEmbedder emb_file
                          | LoadTransformersHubert \<Rightarrow> LoadHubert (snd entry)]
        \<and> (\<forall>e. (case fst entry of
                   EmbFile emb_file \<Rightarrow> load_embedder ext emb_file = Inl e
                 | LoadTransformersHubert \<Rightarrow> load_transformers_hubert ext (snd entry) = Inl e)
              \<longrightarrow> fst (extract_feature ext training_dir embedder_name st) = Inl e)
        \<and> (\<forall>todo. (case fst entry of
                      EmbFile emb_file \<Rightarrow> \<exists>loaded. load_embedder ext emb_file = Inr loaded
                    | LoadTransformersHubert \<Rightarrow>
                        \<exists>loaded. load_transformers_hubert ext (snd entry) = Inr loaded)
                \<and> todo_list fs1 (path_join training_dir ''1_16k_wavs'') = Inr todo
              \<longrightarrow> fan_out todo (device_count ext) = []
                \<and> fst (extract_feature ext training_dir embedder_name st)
                    = Inl (if main_thread ext then ValueError else RuntimeError))
        \<and> (\<forall>r. fst (extract_feature ext training_dir embedder_name st) \<noteq> Inr r)"
    if h: "map_of load_emb_dic embedder_name = Some entry"
      "\<not> path_exists (files st) (path_join training_dir ''3_feature256'')"
      "makedirs (files st) (path_join training_dir ''3_feature256'') = Inr fs1"
  proof -
    note ef = extract_feature_no_device [OF assms h]
    have d: "path_isdir fs1 (path_join training_dir ''3_feature256'')"
      using makedirs_isdir [OF h(3)] .
    have f: "files (snd (extract_feature ext training_dir embedder_name st)) = fs1"
      by (simp add: ef)
    have t: "trace (snd (extract_feature ext training_dir embedder_name st))
            = trace st @ [case fst entry of
                            EmbFile emb_file \<Rightarrow> LoadEmbedder emb_file
                          | LoadTransformersHubert \<Rightarrow> LoadHubert (snd entry)]"
      by (simp add: ef)
    have l: "\<forall>e. (case fst entry of
                   EmbFile emb_file \<Rightarrow> load_embedder ext emb_file = Inl e
                 | LoadTransformersHubert \<Rightarrow> load_transformers_hubert ext (snd entry) = Inl e)
              \<longrightarrow> fst (extract_feature ext training_dir embedder_name st) = Inl e"
      by (cases "fst entry") (simp_all add: ef load_model_cases)
    have g: "\<forall>todo. (case fst entry of
                      EmbFile emb_file \<Rightarrow> \<exists>loaded. load_embedder ext emb_file = Inr loaded
                    | LoadTransformersHubert \<Rightarrow>
                        \<exists>loaded. load_transformers_hubert ext (snd entry) = Inr loaded)
                \<and> todo_list fs1 (path_join training_dir ''1_16k_wavs'') = Inr todo
              \<longrightarrow> fan_out todo (device_count ext) = []
                \<and> fst (extract_feature ext training_dir embedder_name st)
                    = Inl (if main_thread ext then ValueError else RuntimeError)"
      using assms
      by (cases "fst entry")
        (auto simp: ef load_model_cases fan_out_zero gather_nothing_def split: prod.splits)
    have n: "\<forall>r. fst (extract_feature ext training_dir embedder_name st) \<noteq> Inr r"
      by (simp add: ef split: sum.splits)
    show ?thesis
      by (intro conjI d f t l g n)
  qed
  show ?thesis
    using 1 no_device_frame [OF assms, of training_dir embedder_name st] by (intro conjI impI) auto
qed

subsection \<open>Directory mirroring\<close>

lemma child_name_Some:
  assumes "child_name d p = Some n"
  shows "p = d @ ''/'' @ n \<and> n \<noteq> [] \<and> CHR ''/'' \<notin> set n"
proof -
  from assms have pre: "prefix (d @ ''/'') p" and n: "n = drop (length d + 1) p"
    and ok: "n \<noteq> [] \<and> CHR ''/'' \<notin> set n"
    by (auto simp: child_name_def Let_def split: if_splits)
  from pre obtain r where "p = (d @ ''/'') @ r" by (auto simp: prefix_def)
  then show ?thesis using n ok by simp
qed

lemma listdir_entry:
  assumes "listdir fs d = Inr es" and "n \<in> set es"
  shows "n \<noteq> [] \<and> CHR ''/'' \<notin> set n \<and> path_exists fs (d @ ''/'' @ n)"
proof -
  from assms obtain e where e: "e \<in> set fs" and c: "child_name d (fst e) = Some n"
    by (auto simp: listdir_def List.map_filter_def split: if_splits)
  from child_name_Some [OF c] have p: "fst e = d @ ''/'' @ n" and ok: "n \<noteq> []" "CHR ''/'' \<notin> set n"
    by auto
  have "map_of fs (fst e) \<noteq> None"
    using e by (metis map_of_eq_None_iff image_eqI)
  then show ?thesis using p ok by (simp add: path_exists_def)
qed

lemma path_join_plain:
  assumes "a \<noteq> []" and "last a \<noteq> CHR ''/''" and "b \<noteq> []" and "hd b \<noteq> CHR ''/''"
  shows "path_join a b = a @ ''/'' @ b"
proof -
  have "\<not> prefix ''/'' b" using assms(3,4) by (cases b) auto
  moreover have "\<not> suffix ''/'' a" using assms(1,2) by (auto simp: suffix_def)
  ultimately show ?thesis using assms(1) by (simp add: path_join_def)
qed

lemma path_join_td:
  assumes "n \<noteq> []" and "CHR ''/'' \<notin> set n"
  shows "path_join td n \<noteq> [] \<and> last (path_join td n) = last n"
proof -
  have "\<not> prefix ''/'' n" using assms by (cases n) auto
  then show ?thesis using assms(1) by (auto simp: path_join_def)
qed

lemma no_slash_hd_last:
  assumes "n \<noteq> []" and "CHR ''/'' \<notin> set n"
  shows "hd n \<noteq> CHR ''/'' \<and> last n \<noteq> CHR ''/''"
  using assms by (metis hd_in_set last_in_set)

lemma path_dirname_plain:
  assumes "a \<noteq> []" and "last a \<noteq> CHR ''/''" and "CHR ''/'' \<notin> set f"
  shows "path_dirname (a @ ''/'' @ f) = a"
proof -
  have h: "rev (dropWhile (\<lambda>c. c \<noteq> CHR ''/'') (rev (a @ ''/'' @ f))) = a @ ''/''"
    using assms(3) by (auto simp: dropWhile_append3)
  obtain b x where a: "a = b @ [x]" and x: "x \<noteq> CHR ''/''"
    using assms(1,2) by (metis append_butlast_last_id)
  have ne: "a @ ''/'' \<noteq> replicate (length (a @ ''/'')) CHR ''/''"
  proof
    assume "a @ ''/'' = replicate (length (a @ ''/'')) CHR ''/''"
    then have "set (a @ ''/'') \<subseteq> {CHR ''/''}" by (metis set_replicate_conv_if subset_insertI empty_subsetI order_refl)
    then show False using a x by auto
  qed
  have "rev (dropWhile (\<lambda>c. c = CHR ''/'') (rev (a @ ''/''))) = a"
    using a x by simp
  then show ?thesis
    unfolding path_dirname_def h Let_def using ne by simp
qed


lemma takeWhile_no_slash:
  "CHR ''/'' \<notin> set sub \<Longrightarrow> takeWhile (\<lambda>c. c \<noteq> CHR ''/'') (sub @ ''/'' @ f) = sub"
  by (induction sub) auto

lemma split_at_slash:
  assumes "CHR ''/'' \<in> set name"
  shows "name = takeWhile (\<lambda>c. c \<noteq> CHR ''/'') name @ ''/''
            @ drop (length (takeWhile (\<lambda>c. c \<noteq> CHR ''/'') name) + 1) name"
  using assms by (induction name) auto

lemma mirrored_name_nested:
  assumes "CHR ''/'' \<in> set name"
  shows "mirrored_name fs dataset_dir name \<longleftrightarrow>
    (\<exists>sub f. name = sub @ ''/'' @ f \<and> sub \<noteq> [] \<and> CHR ''/'' \<notin> set sub
         \<and> f \<noteq> [] \<and> CHR ''/'' \<notin> set f
         \<and> path_isdir fs (path_join dataset_dir sub))"
proof
  define sub where "sub = takeWhile (\<lambda>c. c \<noteq> CHR ''/'') name"
  define f where "f = drop (length sub + 1) name"
  assume "mirrored_name fs dataset_dir name"
  then have p: "sub \<noteq> []" "f \<noteq> []" "CHR ''/'' \<notin> set f" "path_isdir fs (path_join dataset_dir sub)"
    using assms by (simp_all add: mirrored_name_def Let_def sub_def f_def)
  have ns: "CHR ''/'' \<notin> set sub"
    unfolding sub_def by (auto dest: set_takeWhileD)
  have nm: "name = sub @ ''/'' @ f"
    unfolding sub_def f_def using split_at_slash [OF assms] by simp
  show "\<exists>sub f. name = sub @ ''/'' @ f \<and> sub \<noteq> [] \<and> CHR ''/'' \<notin> set sub
         \<and> f \<noteq> [] \<and> CHR ''/'' \<notin> set f
         \<and> path_isdir fs (path_join dataset_dir sub)"
    by (rule exI [of _ sub], rule exI [of _ f]) (intro conjI nm ns p)
next
  assume "\<exists>sub f. name = sub @ ''/'' @ f \<and> sub \<noteq> [] \<and> CHR ''/'' \<notin> set sub
         \<and> f \<noteq> [] \<and> CHR ''/'' \<notin> set f
         \<and> path_isdir fs (path_join dataset_dir sub)"
  then obtain sub f where e: "name = sub @ ''/'' @ f" and p: "sub \<noteq> []"
      "CHR ''/'' \<notin> set sub" "f \<noteq> []" "CHR ''/'' \<notin> set f"
      "path_isdir fs (path_join dataset_dir sub)"
    by auto
  have t: "takeWhile (\<lambda>c. c \<noteq> CHR ''/'') name = sub"
    unfolding e using p(2) by (rule takeWhile_no_slash)
  have d: "drop (Suc (length sub)) name = f" unfolding e by simp
  have ln: "\<not> length name \<le> Suc (length sub)" unfolding e using p(3) by simp
  show "mirrored_name fs dataset_dir name"
    using assms p ln by (simp add: mirrored_name_def Let_def t d)
qed

lemma mirrored_name_iff:
  "mirrored_name fs dataset_dir name \<longleftrightarrow>
     (name \<noteq> [] \<and> CHR ''/'' \<notin> set name \<and> \<not> path_isdir fs (path_join dataset_dir name))
   \<or> (\<exists>sub f. name = sub @ ''/'' @ f \<and> sub \<noteq> [] \<and> CHR ''/'' \<notin> set sub
         \<and> f \<noteq> [] \<and> CHR ''/'' \<notin> set f
         \<and> path_isdir fs (path_join dataset_dir sub))"
proof (cases "CHR ''/'' \<in> set name")
  case True
  then show ?thesis using mirrored_name_nested [OF True, of fs dataset_dir] by simp
next
  case False
  have "\<not> (\<exists>sub f. name = sub @ ''/'' @ f)" using False by auto
  then show ?thesis using False by (auto simp: mirrored_name_def)
qed

lemma collect_names_entry:
  assumes "collect_names fs ds es = Inr names" and "name \<in> set names"
    and "\<forall>n\<in>set es. n \<noteq> [] \<and> CHR ''/'' \<notin> set n"
  shows "mirrored_name fs ds name"
  using assms
proof (induction es arbitrary: names)
  case Nil
  then show ?case by simp
next
  case (Cons pathname rest)
  have pn: "pathname \<noteq> []" "CHR ''/'' \<notin> set pathname" using Cons.prems(3) by auto
  show ?case
  proof (cases "path_isdir fs (path_join ds pathname)")
    case True
    with Cons.prems(1) obtain entries names' where
      l: "listdir fs (path_join ds pathname) = Inr entries" and
      r: "collect_names fs ds rest = Inr names'" and
      n: "names = map (path_join pathname) (filter (\<lambda>f. \<not> contains ''spec'' f) (sort entries)) @ names'"
      by (auto split: sum.splits)
    show ?thesis
    proof (cases "name \<in> set names'")
      case True
      then show ?thesis using Cons.IH [OF r] Cons.prems(3) by simp
    next
      case False
      then obtain f where f: "f \<in> set entries" and nm: "name = path_join pathname f"
        using Cons.prems(2) n by auto
      from listdir_entry [OF l f] have fo: "f \<noteq> []" "CHR ''/'' \<notin> set f" by auto
      have "name = pathname @ ''/'' @ f"
        unfolding nm using pn fo no_slash_hd_last by (intro path_join_plain) auto
      then show ?thesis
        using pn fo True by (auto simp: mirrored_name_iff)
    qed
  next
    case False
    with Cons.prems(1) obtain names' where
      r: "collect_names fs ds rest = Inr names'" and n: "names = pathname # names'"
      by (auto split: sum.splits)
    show ?thesis
    proof (cases "name = pathname")
      case True
      then show ?thesis using pn False by (simp add: mirrored_name_iff)
    next
      case False
      then have "name \<in> set names'" using Cons.prems(2) n by simp
      then show ?thesis using Cons.IH [OF r] Cons.prems(3) by simp
    qed
  qed
qed

lemma list_names_entry:
  assumes "list_names fs ds = Inr names" and "name \<in> set names"
  shows "mirrored_name fs ds name"
proof -
  from assms(1) obtain es where l: "listdir fs ds = Inr es"
    and c: "collect_names fs ds (sort es) = Inr names"
    by (auto simp: list_names_def split: sum.splits)
  have "\<forall>n\<in>set (sort es). n \<noteq> [] \<and> CHR ''/'' \<notin> set n"
    using listdir_entry [OF l] by simp
  then show ?thesis using collect_names_entry [OF c assms(2)] by blast
qed

lemma mirrored_name_plain:
  assumes "mirrored_name fs ds name"
  shows "name \<noteq> [] \<and> hd name \<noteq> CHR ''/''"
  using assms no_slash_hd_last by (auto simp: mirrored_name_iff)

lemma makedirs_isdir_mono:
  assumes "makedirs fs p = Inr fs'" and "path_isdir fs q"
  shows "path_isdir fs' q"
  using makedirs_mono [OF assms(1)] assms(2) by (simp add: path_isdir_def)

lemma makedirs_pairs_isdir_mono:
  "makedirs_pairs fs ds = (None, fs') \<Longrightarrow> path_isdir fs q \<Longrightarrow> path_isdir fs' q"
  by (induction ds arbitrary: fs) (auto split: sum.splits dest: makedirs_isdir_mono)

lemma makedirs_pairs_isdir:
  "makedirs_pairs fs ds = (None, fs') \<Longrightarrow> d \<in> set ds \<Longrightarrow>
     path_isdir fs' (fst d) \<and> path_isdir fs' (snd d)"
proof (induction ds arbitrary: fs)
  case Nil
  then show ?case by simp
next
  case (Cons x ds)
  from Cons.prems(1) obtain fs1 fs2 where
    m1: "makedirs fs (fst x) = Inr fs1" and m2: "makedirs fs1 (snd x) = Inr fs2"
    and r: "makedirs_pairs fs2 ds = (None, fs')"
    by (auto split: sum.splits)
  show ?case
  proof (cases "d = x")
    case True
    have "path_isdir fs2 (fst x)"
      using makedirs_isdir_mono [OF m2 makedirs_isdir [OF m1]] .
    moreover have "path_isdir fs2 (snd x)" using makedirs_isdir [OF m2] .
    ultimately show ?thesis
      using True makedirs_pairs_isdir_mono [OF r] by blast
  next
    case False
    then show ?thesis using Cons.IH [OF r] Cons.prems(2) by simp
  qed
qed

lemma output_dirs_mem:
  "(inp, o1, o2) \<in> set paths \<Longrightarrow> (path_dirname o1, path_dirname o2) \<in> set (output_dirs paths)"
  by (force simp: output_dirs_def)

lemma build_paths_mem:
  assumes "(inp, o1, o2) \<in> set (build_paths ds d1 d2 names)"
  shows "\<exists>name\<in>set names. inp = path_join ds name \<and> o1 = path_join d1 name
    \<and> o2 = path_join d2 name"
  using assms by (auto simp: build_paths_def)


lemma prepared_items:
  assumes "\<not> (path_exists (files st) (path_join training_dir ''2a_f0'')
            \<and> path_exists (files st) (path_join training_dir ''2b_f0nsf''))"
    and "extract_f0 ext training_dir num_processes f0_method st = (None, st')"
  shows "\<exists>fs2 names fs3.
      list_names fs2 (path_join training_dir ''1_16k_wavs'') = Inr names
    \<and> makedirs_pairs fs2 (output_dirs (build_paths (path_join training_dir ''1_16k_wavs'')
          (path_join training_dir ''2a_f0'') (path_join training_dir ''2b_f0nsf'') names))
        = (None, fs3)
    \<and> st' = run_processes ext f0_method
          (fan_out (build_paths (path_join training_dir ''1_16k_wavs'')
            (path_join training_dir ''2a_f0'') (path_join training_dir ''2b_f0nsf'') names)
            num_processes)
          (st\<lparr>files := fs3\<rparr>)
    \<and> (\<forall>item\<in>set (build_paths (path_join training_dir ''1_16k_wavs'')
            (path_join training_dir ''2a_f0'') (path_join training_dir ''2b_f0nsf'') names).
          \<exists>name. mirrored_name fs2 (path_join training_dir ''1_16k_wavs'') name
            \<and> fst item = path_join training_dir ''1_16k_wavs'' @ ''/'' @ name
            \<and> fst (snd item) = path_join training_dir ''2a_f0'' @ ''/'' @ name
            \<and> snd (snd item) = path_join training_dir ''2b_f0nsf'' @ ''/'' @ name
            \<and> path_isdir fs3 (path_dirname (fst (snd item)))
            \<and> path_isdir fs3 (path_dirname (snd (snd item))))"
proof -
  let ?ds = "path_join training_dir ''1_16k_wavs''"
  let ?d1 = "path_join training_dir ''2a_f0''"
  let ?d2 = "path_join training_dir ''2b_f0nsf''"
  from assms obtain fs1 fs2 names fs3 where
    m1: "makedirs (files st) ?d1 = Inr fs1" and
    m2: "makedirs fs1 ?d2 = Inr fs2" and
    ln: "list_names fs2 ?ds = Inr names" and
    m3: "makedirs_pairs fs2 (output_dirs (build_paths ?ds ?d1 ?d2 names)) = (None, fs3)" and
    st': "st' = run_processes ext f0_method (fan_out (build_paths ?ds ?d1 ?d2 names) num_processes)
            (st\<lparr>files := fs3\<rparr>)"
    by (auto simp: extract_f0_def Let_def split: sum.splits option.splits prod.splits)
  have j: "path_join training_dir n \<noteq> [] \<and> last (path_join training_dir n) \<noteq> CHR ''/''"
    if "n \<noteq> []" "CHR ''/'' \<notin> set n" for n
    using path_join_td [OF that] no_slash_hd_last [OF that] by simp
  have "\<exists>name. mirrored_name fs2 ?ds name
            \<and> fst item = ?ds @ ''/'' @ name
            \<and> fst (snd item) = ?d1 @ ''/'' @ name
            \<and> snd (snd item) = ?d2 @ ''/'' @ name
            \<and> path_isdir fs3 (path_dirname (fst (snd item)))
            \<and> path_isdir fs3 (path_dirname (snd (snd item)))"
    if item: "item \<in> set (build_paths ?ds ?d1 ?d2 names)" for item
  proof -
    obtain inp o1 o2 where i: "item = (inp, o1, o2)" by (cases item) auto
    from build_paths_mem [of inp o1 o2 ?ds ?d1 ?d2 names] item i
    obtain name where nm: "name \<in> set names" and
      e: "inp = path_join ?ds name" "o1 = path_join ?d1 name" "o2 = path_join ?d2 name"
      by auto
    have mn: "mirrored_name fs2 ?ds name" using list_names_entry [OF ln nm] .
    note pl = mirrored_name_plain [OF mn]
    have e1: "inp = ?ds @ ''/'' @ name"
      unfolding e using j [of "''1_16k_wavs''"] pl by (intro path_join_plain) auto
    have e2: "o1 = ?d1 @ ''/'' @ name"
      unfolding e using j [of "''2a_f0''"] pl by (intro path_join_plain) auto
    have e3: "o2 = ?d2 @ ''/'' @ name"
      unfolding e using j [of "''2b_f0nsf''"] pl by (intro path_join_plain) auto
    have "(path_dirname o1, path_dirname o2) \<in> set (output_dirs (build_paths ?ds ?d1 ?d2 names))"
      using output_dirs_mem item i by blast
    from makedirs_pairs_isdir [OF m3 this]
    have "path_isdir fs3 (path_dirname o1)" "path_isdir fs3 (path_dirname o2)" by auto
    then show ?thesis using mn e1 e2 e3 i by auto
  qed
  then show ?thesis using ln m3 st' by blast
qed

subsection \<open>Skipping on the sample directory\<close>

lemma demo_done_outputs:
  "path_exists (files demo_done) (''d/2a_f0/s/a.wav'' @ ''.npy'')"
  "path_exists (files demo_done) (''d/2b_f0nsf/s/a.wav'' @ ''.npy'')"
  by code_simp+

lemma demo_featured_output:
  "suffix ''.wav'' ''s/a.wav''"
  "path_exists (files demo_featured) (path_join (out_dir demo_closure) (replace_wav ''s/a.wav''))"
  by code_simp+

theorem skip_processed_witness:
  "path_exists (files demo_done) (''d/2a_f0/s/a.wav'' @ ''.npy'')
   \<and> path_exists (files demo_done) (''d/2b_f0nsf/s/a.wav'' @ ''.npy'')
   \<and> go_body demo_ext ''harvest'' (''d/1_16k_wavs/s/a.wav'', ''d/2a_f0/s/a.wav'', ''d/2b_f0nsf/s/a.wav'')
        demo_done = (None, demo_done)
   \<and> go_item demo_ext ''harvest'' 0 (''d/1_16k_wavs/s/a.wav'', ''d/2a_f0/s/a.wav'', ''d/2b_f0nsf/s/a.wav'')
        demo_done = (None, demo_done)
   \<and> go_from demo_ext ''harvest'' 0
        ((''d/1_16k_wavs/s/a.wav'', ''d/2a_f0/s/a.wav'', ''d/2b_f0nsf/s/a.wav'') # []) demo_done
        = go_from demo_ext ''harvest'' (Suc 0) [] demo_done
   \<and> suffix ''.wav'' ''s/a.wav''
   \<and> path_exists (files demo_featured) (path_join (out_dir demo_closure) (replace_wav ''s/a.wav''))
   \<and> process_body demo_ext demo_closure 0 ''s/a.wav'' demo_featured = (None, demo_featured)
   \<and> process_item demo_ext demo_closure 0 ''s/a.wav'' demo_featured = (None, demo_featured)
   \<and> process demo_ext demo_closure (''s/a.wav'' # []) 0 demo_featured
        = process demo_ext demo_closure [] 0 demo_featured"
  using demo_done_outputs demo_featured_output
    skip_processed [of demo_done "''d/2a_f0/s/a.wav''" "''d/2b_f0nsf/s/a.wav''" demo_ext
      "''harvest''" "''d/1_16k_wavs/s/a.wav''" 0 "[]"]
    skip_processed [of demo_featured "''d/2a_f0/s/a.wav''" "''d/2b_f0nsf/s/a.wav''" demo_ext
      "''harvest''" "''d/1_16k_wavs/s/a.wav''" 0 "[]" "''s/a.wav''" demo_closure 0 "[]"]
  by blast


subsection \<open>An exception raised inside the handler\<close>

lemma go_body_compute_raises:
  assumes "\<not> path_exists (files st) (fst (snd item) @ ''.npy'')"
    and "compute_f0 ext (files st) (fst item) m = Inl e"
  shows "go_body ext m item st = (Some e, emit (ComputeF0 (fst item) m) st)"
  using assms by (cases item) (simp add: go_body_def)

lemma go_body_saves:
  assumes "\<not> path_exists (files st) (fst (snd item) @ ''.npy'')"
    and "compute_f0 ext (files st) (fst item) m = Inr f0"
    and "save_array (snd (snd item)) (FloatArray f0) (emit (ComputeF0 (fst item) m) st) = Inr st2"
    and "coarse_f0 f0 = Inr c"
    and "save_array (fst (snd item)) (IntArray c) st2 = Inr st3"
  shows "go_body ext m item st = (None, st3)"
  using assms by (cases item) (simp add: go_body_def)

lemma demo2_not_prepared:
  "path_exists demo_fs2 ''d/2a_f0'' = False"
  "path_exists demo_fs2 ''d/2b_f0nsf'' = False"
  by code_simp+

lemma demo2_makedirs:
  "makedirs demo_fs2 ''d/2a_f0'' = Inr (demo_fs2 @ [(''d/2a_f0'', Dir)])"
  "makedirs (demo_fs2 @ [(''d/2a_f0'', Dir)]) ''d/2b_f0nsf''
     = Inr (demo_fs2 @ [(''d/2a_f0'', Dir), (''d/2b_f0nsf'', Dir)])"
  by code_simp+

lemma demo2_names:
  "list_names (demo_fs2 @ [(''d/2a_f0'', Dir), (''d/2b_f0nsf'', Dir)]) ''d/1_16k_wavs''
     = Inr [demo_unprintable, ''s/a.wav'']"
  by code_simp

lemma demo2_paths:
  "build_paths ''d/1_16k_wavs'' ''d/2a_f0'' ''d/2b_f0nsf'' [demo_unprintable, ''s/a.wav'']
     = [demo_unprintable_item, demo_item]"
  by code_simp

lemma demo2_output_dirs:
  "makedirs_pairs (demo_fs2 @ [(''d/2a_f0'', Dir), (''d/2b_f0nsf'', Dir)])
      (output_dirs [demo_unprintable_item, demo_item])
     = (None, demo_prepared2)"
  by code_simp

lemma demo2_fan_out:
  "fan_out [demo_unprintable_item, demo_item] 1 = [[demo_unprintable_item, demo_item]]"
  by code_simp

lemma demo2_unprintable_missing:
  "\<not> path_exists (files demo_ready2) (fst (snd demo_unprintable_item) @ ''.npy'')"
  by code_simp

lemma demo2_compute_raises:
  "compute_f0 demo_ext_ascii (files demo_ready2) (fst demo_unprintable_item) ''harvest''
     = Inl (LibraryError ''decode'')"
  "compute_f0 demo_ext (files demo_ready2) (fst demo_unprintable_item) ''harvest''
     = Inl (LibraryError ''decode'')"
  by code_simp+

lemma demo2_computing:
  "emit (ComputeF0 (fst demo_unprintable_item) ''harvest'') demo_ready2 = demo_abandoned"
  by code_simp

lemma demo2_go_body_raises:
  "go_body demo_ext_ascii ''harvest'' demo_unprintable_item demo_ready2
    = (Some (LibraryError ''decode''), demo_abandoned)"
  "go_body demo_ext ''harvest'' demo_unprintable_item demo_ready2
    = (Some (LibraryError ''decode''), demo_abandoned)"
  using go_body_compute_raises [OF demo2_unprintable_missing demo2_compute_raises(1)]
    go_body_compute_raises [OF demo2_unprintable_missing demo2_compute_raises(2)]
  by (simp_all only: demo2_computing)

lemma demo2_print_raises:
  "print_raises demo_ext_ascii (F0Failed 0 (fst demo_unprintable_item) (LibraryError ''decode''))
    = Some UnicodeEncodeError"
  "print_raises demo_ext_ascii (FeatureError (LibraryError ''decode'') demo_unprintable)
    = Some UnicodeEncodeError"
  by code_simp+

lemma demo2_go_abandons:
  "go demo_ext_ascii [demo_unprintable_item, demo_item] ''harvest'' demo_ready2
    = (Some UnicodeEncodeError, demo_abandoned)"
  using go_handler_raises [of demo_ext_ascii "''harvest''" "[]" demo_ready2 demo_ready2
      demo_unprintable_item "LibraryError ''decode''" demo_abandoned UnicodeEncodeError
      "[demo_item]"]
    demo2_go_body_raises(1) demo2_print_raises(1)
  by simp

lemma demo2_next_item:
  "\<not> path_exists
      (files (emit (Print (F0Failed 0 (fst demo_unprintable_item) (LibraryError ''decode'')))
                demo_abandoned))
      (fst (snd demo_item) @ ''.npy'')"
  "compute_f0 demo_ext
      (files (emit (Print (F0Failed 0 (fst demo_unprintable_item) (LibraryError ''decode'')))
                demo_abandoned))
      (fst demo_item) ''harvest'' = Inr [0, 0]"
  "save_array (snd (snd demo_item)) (FloatArray [0, 0])
      (emit (ComputeF0 (fst demo_item) ''harvest'')
        (emit (Print (F0Failed 0 (fst demo_unprintable_item) (LibraryError ''decode'')))
          demo_abandoned))
    = Inr (demo_logged\<lparr>files := demo_prepared2
              @ [(''d/2b_f0nsf/s/a.wav.npy'', File (FloatArray [0, 0]))],
            trace := butlast (trace demo_logged)\<rparr>)"
  "save_array (fst (snd demo_item)) (IntArray [1, 1])
      (demo_logged\<lparr>files := demo_prepared2
              @ [(''d/2b_f0nsf/s/a.wav.npy'', File (FloatArray [0, 0]))],
            trace := butlast (trace demo_logged)\<rparr>)
    = Inr demo_logged"
  by code_simp+

lemma demo2_go_logs:
  "go demo_ext [demo_unprintable_item, demo_item] ''harvest'' demo_ready2 = (None, demo_logged)"
  using go_logs_and_continues [of demo_ext "''harvest''" "[]" demo_ready2 demo_ready2
      demo_unprintable_item "LibraryError ''decode''" demo_abandoned "[demo_item]"]
    demo2_go_body_raises(2) demo_print_ok(1)
    go_body_saves [OF demo2_next_item(1) demo2_next_item(2) demo2_next_item(3) demo_coarse
      demo2_next_item(4)]
  by (simp add: go_item_def)

lemma demo2_f0_run:
  "extract_f0 demo_ext_ascii ''d'' 1 ''harvest'' demo_state2 = (None, demo_abandoned)"
  by (simp add: extract_f0_def demo_joins demo_state2_def demo2_not_prepared demo2_makedirs
      demo2_names demo2_paths demo2_output_dirs demo2_fan_out run_processes_def
      demo_ready2_def [symmetric] demo2_go_abandons)

lemma demo2_process:
  "process demo_ext_ascii demo_closure [demo_unprintable, ''s/a.wav''] 0 demo_loaded2
    = (Some UnicodeEncodeError, demo_abandoned_feature)"
  "process demo_ext demo_closure [demo_unprintable, ''s/a.wav''] 0 demo_loaded2
    = (None, demo_logged_feature)"
  by code_simp+

lemma demo2_process_body_raises:
  "process_body demo_ext_ascii demo_closure 0 demo_unprintable demo_loaded2
    = (Some (LibraryError ''decode''), demo_abandoned_feature)"
  by code_simp

lemma demo2_feature_run:
  "extract_feature demo_ext_ascii ''d'' ''hubert_base'' demo_state2
    = (Inl UnicodeEncodeError, demo_abandoned_feature)"
  "extract_feature demo_ext ''d'' ''hubert_base'' demo_state2 = (Inr None, demo_logged_feature)"
  by code_simp+

lemma demo2_outputs:
  "path_exists (files demo_logged) ''d/2a_f0/s/a.wav.npy''"
  "\<not> path_exists (files demo_abandoned) ''d/2a_f0/s/a.wav.npy''"
  "path_exists (files demo_logged_feature) ''d/3_feature256/s/a.npy''"
  "\<not> path_exists (files demo_abandoned_feature) ''d/3_feature256/s/a.npy''"
  by code_simp+

text \<open>
  C4. An exception of the body is caught, but the handler can raise in its turn, and that
  exception is not contained. The sample speaker has two waveforms; the first has a name
  with a character outside ASCII and a content that the decoder rejects, so that the body
  raises for it. On a standard output that encodes ASCII only, the \<^verbatim>\<open>print\<close> of the
  handler raises UnicodeEncodeError: the exception leaves \<^verbatim>\<open>go\<close> and \<^verbatim>\<open>process\<close>,
  the second waveform \<^verbatim>\<open>a.wav\<close> is never taken, and \<^verbatim>\<open>extract_feature\<close> raises
  (\<^verbatim>\<open>extract_f0\<close> returns, its worker process having died). With a standard output that
  encodes the name, the same calls log the first waveform and produce the outputs of the
  second.
\<close>

theorem handler_print_raises:
  "go_body demo_ext_ascii ''harvest'' demo_unprintable_item demo_ready2
      = (Some (LibraryError ''decode''), demo_abandoned)
   \<and> print_raises demo_ext_ascii
        (F0Failed 0 (fst demo_unprintable_item) (LibraryError ''decode''))
      = Some UnicodeEncodeError
   \<and> go demo_ext_ascii [demo_unprintable_item, demo_item] ''harvest'' demo_ready2
      = (Some UnicodeEncodeError, demo_abandoned)
   \<and> extract_f0 demo_ext_ascii ''d'' 1 ''harvest'' demo_state2 = (None, demo_abandoned)
   \<and> \<not> path_exists (files demo_abandoned) ''d/2a_f0/s/a.wav.npy''
   \<and> go demo_ext [demo_unprintable_item, demo_item] ''harvest'' demo_ready2 = (None, demo_logged)
   \<and> path_exists (files demo_logged) ''d/2a_f0/s/a.wav.npy''
   \<and> process_body demo_ext_ascii demo_closure 0 demo_unprintable demo_loaded2
      = (Some (LibraryError ''decode''), demo_abandoned_feature)
   \<and> print_raises demo_ext_ascii
        (FeatureError (LibraryError ''decode'') demo_unprintable)
      = Some UnicodeEncodeError
   \<and> process demo_ext_ascii demo_closure [demo_unprintable, ''s/a.wav''] 0 demo_loaded2
      = (Some UnicodeEncodeError, demo_abandoned_feature)
   \<and> extract_feature demo_ext_ascii ''d'' ''hubert_base'' demo_state2
      = (Inl UnicodeEncodeError, demo_abandoned_feature)
   \<and> \<not> path_exists (files demo_abandoned_feature) ''d/3_feature256/s/a.npy''
   \<and> process demo_ext demo_closure [demo_unprintable, ''s/a.wav''] 0 demo_loaded2
      = (None, demo_logged_feature)
   \<and> extract_feature demo_ext ''d'' ''hubert_base'' demo_state2 = (Inr None, demo_logged_feature)
   \<and> path_exists (files demo_logged_feature) ''d/3_feature256/s/a.npy''"
  by (intro conjI demo2_go_body_raises(1) demo2_print_raises demo2_go_abandons demo2_f0_run
      demo2_outputs demo2_go_logs demo2_process_body_raises demo2_process demo2_feature_run)

subsection \<open>Saving on the sample directory\<close>

lemma demo_go_body_ready:
  "go_body demo_ext ''harvest''
     (''d/1_16k_wavs/s/a.wav'', ''d/2a_f0/s/a.wav'', ''d/2b_f0nsf/s/a.wav'') demo_ready
    = (None, demo_done)"
  using demo_go_body by (simp add: demo_ready_def demo_item_def)

lemma demo_ready_missing:
  "\<not> (path_exists (files demo_ready) (''d/2a_f0/s/a.wav'' @ ''.npy'')
      \<and> path_exists (files demo_ready) (''d/2b_f0nsf/s/a.wav'' @ ''.npy''))"
  by code_simp

theorem two_pitch_files_witness:
  "\<not> (path_exists (files demo_ready) (''d/2a_f0/s/a.wav'' @ ''.npy'')
      \<and> path_exists (files demo_ready) (''d/2b_f0nsf/s/a.wav'' @ ''.npy''))
   \<and> go_body demo_ext ''harvest''
        (''d/1_16k_wavs/s/a.wav'', ''d/2a_f0/s/a.wav'', ''d/2b_f0nsf/s/a.wav'') demo_ready
      = (None, demo_done)
   \<and> (\<exists>featur_pit coarse_pit.
        compute_f0 demo_ext (files demo_ready) ''d/1_16k_wavs/s/a.wav'' ''harvest'' = Inr featur_pit
      \<and> coarse_f0 featur_pit = Inr coarse_pit
      \<and> trace demo_done = trace demo_ready @ [ComputeF0 ''d/1_16k_wavs/s/a.wav'' ''harvest'',
            Save (npy_name ''d/2b_f0nsf/s/a.wav''), Save (npy_name ''d/2a_f0/s/a.wav'')]
      \<and> files demo_done = AList.update (npy_name ''d/2a_f0/s/a.wav'') (File (IntArray coarse_pit))
          (AList.update (npy_name ''d/2b_f0nsf/s/a.wav'') (File (FloatArray featur_pit))
            (files demo_ready))
      \<and> map_of (files demo_done) (npy_name ''d/2a_f0/s/a.wav'') = Some (File (IntArray coarse_pit))
      \<and> (npy_name ''d/2a_f0/s/a.wav'' \<noteq> npy_name ''d/2b_f0nsf/s/a.wav'' \<longrightarrow>
           map_of (files demo_done) (npy_name ''d/2b_f0nsf/s/a.wav'')
             = Some (File (FloatArray featur_pit)))
      \<and> (\<forall>q. q \<noteq> npy_name ''d/2a_f0/s/a.wav'' \<and> q \<noteq> npy_name ''d/2b_f0nsf/s/a.wav'' \<longrightarrow>
           map_of (files demo_done) q = map_of (files demo_ready) q))"
  using demo_ready_missing demo_go_body_ready
    two_pitch_files [OF demo_ready_missing demo_go_body_ready]
  by blast

subsection \<open>The parent directories of the outputs\<close>

lemma dirname_mirrored:
  assumes "d \<noteq> []" and "last d \<noteq> CHR ''/''" and "mirrored_name fs ds name"
  shows "path_dirname (d @ ''/'' @ name)
    = (if CHR ''/'' \<in> set name then d @ ''/'' @ takeWhile (\<lambda>c. c \<noteq> CHR ''/'') name else d)"
proof (cases "CHR ''/'' \<in> set name")
  case False
  then show ?thesis using path_dirname_plain [OF assms(1,2), of name] by simp
next
  case True
  with assms(3) obtain sub f where n: "name = sub @ ''/'' @ f" and s: "sub \<noteq> []" "CHR ''/'' \<notin> set sub"
    and f: "CHR ''/'' \<notin> set f"
    by (auto simp: mirrored_name_iff)
  have t: "takeWhile (\<lambda>c. c \<noteq> CHR ''/'') name = sub"
    unfolding n using s(2) by (induction sub) auto
  have l: "last (d @ ''/'' @ sub) \<noteq> CHR ''/''"
    using s no_slash_hd_last [OF s] by simp
  have "path_dirname ((d @ ''/'' @ sub) @ ''/'' @ f) = d @ ''/'' @ sub"
    using l f by (intro path_dirname_plain) auto
  then show ?thesis using True t n by simp
qed


text \<open>
  C7. When \<^verbatim>\<open>extract_f0\<close> gets past its guard and returns, every work item it has built is
  \<^verbatim>\<open>(1_16k_wavs/name, 2a_f0/name, 2b_f0nsf/name)\<close> for one relative path \<open>name\<close>, which
  is a top-level entry or \<^verbatim>\<open>sub/f\<close>; the parent of each output path is the output
  directory itself or its subdirectory \<^verbatim>\<open>sub\<close>, and it is a directory in the state in which
  the worker processes are started.
\<close>

theorem directory_mirroring:
  assumes "\<not> (path_exists (files st) (path_join training_dir ''2a_f0'')
            \<and> path_exists (files st) (path_join training_dir ''2b_f0nsf''))"
    and "extract_f0 ext training_dir num_processes f0_method st = (None, st')"
  shows "\<exists>fs2 names fs3.
      list_names fs2 (path_join training_dir ''1_16k_wavs'') = Inr names
    \<and> makedirs_pairs fs2 (output_dirs (build_paths (path_join training_dir ''1_16k_wavs'')
          (path_join training_dir ''2a_f0'') (path_join training_dir ''2b_f0nsf'') names))
        = (None, fs3)
    \<and> st' = run_processes ext f0_method
          (fan_out (build_paths (path_join training_dir ''1_16k_wavs'')
            (path_join training_dir ''2a_f0'') (path_join training_dir ''2b_f0nsf'') names)
            num_processes)
          (st\<lparr>files := fs3\<rparr>)
    \<and> (\<forall>item\<in>set (build_paths (path_join training_dir ''1_16k_wavs'')
            (path_join training_dir ''2a_f0'') (path_join training_dir ''2b_f0nsf'') names).
          \<exists>name. mirrored_name fs2 (path_join training_dir ''1_16k_wavs'') name
            \<and> fst item = path_join training_dir ''1_16k_wavs'' @ ''/'' @ name
            \<and> fst (snd item) = path_join training_dir ''2a_f0'' @ ''/'' @ name
            \<and> snd (snd item) = path_join training_dir ''2b_f0nsf'' @ ''/'' @ name
            \<and> path_dirname (fst (snd item))
                = (if CHR ''/'' \<in> set name
                   then path_join training_dir ''2a_f0'' @ ''/'' @ takeWhile (\<lambda>c. c \<noteq> CHR ''/'') name
                   else path_join training_dir ''2a_f0'')
            \<and> path_dirname (snd (snd item))
                = (if CHR ''/'' \<in> set name
                   then path_join training_dir ''2b_f0nsf'' @ ''/'' @ takeWhile (\<lambda>c. c \<noteq> CHR ''/'') name
                   else path_join training_dir ''2b_f0nsf'')
            \<and> path_isdir fs3 (path_dirname (fst (snd item)))
            \<and> path_isdir fs3 (path_dirname (snd (snd item))))"
proof -
  let ?ds = "path_join training_dir ''1_16k_wavs''"
  let ?d1 = "path_join training_dir ''2a_f0''"
  let ?d2 = "path_join training_dir ''2b_f0nsf''"
  from prepared_items [OF assms] obtain fs2 names fs3 where
    ln: "list_names fs2 ?ds = Inr names" and
    m3: "makedirs_pairs fs2 (output_dirs (build_paths ?ds ?d1 ?d2 names)) = (None, fs3)" and
    st': "st' = run_processes ext f0_method (fan_out (build_paths ?ds ?d1 ?d2 names) num_processes)
            (st\<lparr>files := fs3\<rparr>)" and
    a: "\<forall>item\<in>set (build_paths ?ds ?d1 ?d2 names).
          \<exists>name. mirrored_name fs2 ?ds name
            \<and> fst item = ?ds @ ''/'' @ name
            \<and> fst (snd item) = ?d1 @ ''/'' @ name
            \<and> snd (snd item) = ?d2 @ ''/'' @ name
            \<and> path_isdir fs3 (path_dirname (fst (snd item)))
            \<and> path_isdir fs3 (path_dirname (snd (snd item)))"
    by blast
  have j: "path_join training_dir n \<noteq> [] \<and> last (path_join training_dir n) \<noteq> CHR ''/''"
    if "n \<noteq> []" "CHR ''/'' \<notin> set n" for n
    using path_join_td [OF that] no_slash_hd_last [OF that] by simp
  have j1: "?d1 \<noteq> []" "last ?d1 \<noteq> CHR ''/''" using j [of "''2a_f0''"] by auto
  have j2: "?d2 \<noteq> []" "last ?d2 \<noteq> CHR ''/''" using j [of "''2b_f0nsf''"] by auto
  have "\<exists>name. mirrored_name fs2 ?ds name
            \<and> fst item = ?ds @ ''/'' @ name
            \<and> fst (snd item) = ?d1 @ ''/'' @ name
            \<and> snd (snd item) = ?d2 @ ''/'' @ name
            \<and> path_dirname (fst (snd item))
                = (if CHR ''/'' \<in> set name
                   then ?d1 @ ''/'' @ takeWhile (\<lambda>c. c \<noteq> CHR ''/'') name else ?d1)
            \<and> path_dirname (snd (snd item))
                = (if CHR ''/'' \<in> set name
                   then ?d2 @ ''/'' @ takeWhile (\<lambda>c. c \<noteq> CHR ''/'') name else ?d2)
            \<and> path_isdir fs3 (path_dirname (fst (snd item)))
            \<and> path_isdir fs3 (path_dirname (snd (snd item)))"
    if item: "item \<in> set (build_paths ?ds ?d1 ?d2 names)" for item
  proof -
    from a item obtain name where mn: "mirrored_name fs2 ?ds name"
      and e: "fst item = ?ds @ ''/'' @ name" "fst (snd item) = ?d1 @ ''/'' @ name"
        "snd (snd item) = ?d2 @ ''/'' @ name"
      and d: "path_isdir fs3 (path_dirname (fst (snd item)))"
        "path_isdir fs3 (path_dirname (snd (snd item)))"
      by blast
    show ?thesis
      using mn e d dirname_mirrored [OF j1 mn] dirname_mirrored [OF j2 mn] by auto
  qed
  then show ?thesis using ln m3 st' by blast
qed


lemma demo_state_unprepared:
  "\<not> (path_exists (files demo_state) (path_join ''d'' ''2a_f0'')
      \<and> path_exists (files demo_state) (path_join ''d'' ''2b_f0nsf''))"
  by code_simp

theorem directory_mirroring_witness:
  "\<not> (path_exists (files demo_state) (path_join ''d'' ''2a_f0'')
      \<and> path_exists (files demo_state) (path_join ''d'' ''2b_f0nsf''))
   \<and> extract_f0 demo_ext ''d'' 1 ''harvest'' demo_state = (None, demo_done)
   \<and> (\<exists>fs2 names fs3.
      list_names fs2 (path_join ''d'' ''1_16k_wavs'') = Inr names
    \<and> makedirs_pairs fs2 (output_dirs (build_paths (path_join ''d'' ''1_16k_wavs'')
          (path_join ''d'' ''2a_f0'') (path_join ''d'' ''2b_f0nsf'') names))
        = (None, fs3)
    \<and> demo_done = run_processes demo_ext ''harvest''
          (fan_out (build_paths (path_join ''d'' ''1_16k_wavs'')
            (path_join ''d'' ''2a_f0'') (path_join ''d'' ''2b_f0nsf'') names)
            1)
          (demo_state\<lparr>files := fs3\<rparr>)
    \<and> (\<forall>item\<in>set (build_paths (path_join ''d'' ''1_16k_wavs'')
            (path_join ''d'' ''2a_f0'') (path_join ''d'' ''2b_f0nsf'') names).
          \<exists>name. mirrored_name fs2 (path_join ''d'' ''1_16k_wavs'') name
            \<and> fst item = path_join ''d'' ''1_16k_wavs'' @ ''/'' @ name
            \<and> fst (snd item) = path_join ''d'' ''2a_f0'' @ ''/'' @ name
            \<and> snd (snd item) = path_join ''d'' ''2b_f0nsf'' @ ''/'' @ name
            \<and> path_dirname (fst (snd item))
                = (if CHR ''/'' \<in> set name
                   then path_join ''d'' ''2a_f0'' @ ''/'' @ takeWhile (\<lambda>c. c \<noteq> CHR ''/'') name
                   else path_join ''d'' ''2a_f0'')
            \<and> path_dirname (snd (snd item))
                = (if CHR ''/'' \<in> set name
                   then path_join ''d'' ''2b_f0nsf'' @ ''/'' @ takeWhile (\<lambda>c. c \<noteq> CHR ''/'') name
                   else path_join ''d'' ''2b_f0nsf'')
            \<and> path_isdir fs3 (path_dirname (fst (snd item)))
            \<and> path_isdir fs3 (path_dirname (snd (snd item)))))"
  using demo_state_unprepared demo_full_run
    directory_mirroring [OF demo_state_unprepared demo_full_run]
  by blast

lemma demo_feature_unprepared:
  "suffix ''.wav'' ''s/a.wav''"
  "\<not> path_exists (files demo_state) (path_join (out_dir demo_closure) (replace_wav ''s/a.wav''))"
  "\<not> path_exists (files demo_state) (path_join (out_dir demo_closure_hubert) (replace_wav ''s/a.wav''))"
  by code_simp+

lemma demo_process_body:
  "process_body demo_ext demo_closure 0 ''s/a.wav'' demo_state
    = (None, \<lparr>files = demo_fs @ [(''d/3_feature256'', Dir), (''d/3_feature256/s'', Dir),
                 (''d/3_feature256/s/a.npy'', File (FloatMatrix [[Fin 0, Fin 1]]))],
              trace = [Save ''d/3_feature256/s/a.npy'']\<rparr>)"
  by code_simp

lemma demo_process_body_nan:
  "process_body demo_ext demo_closure_hubert 0 ''s/a.wav'' demo_state
    = (None, \<lparr>files = demo_fs @ [(''d/3_feature256'', Dir), (''d/3_feature256/s'', Dir)],
              trace = [Print (ContainsNan ''s/a.wav'')]\<rparr>)"
  by code_simp

subsection \<open>The NaN guard on the sample directory\<close>

lemma demo_process_body_saved:
  "process_body demo_ext demo_closure 0 ''s/a.wav'' demo_state = (None, demo_saved)"
  using demo_process_body by (simp add: demo_saved_def)

lemma demo_process_body_nan':
  "process_body demo_ext demo_closure_hubert 0 ''s/a.wav'' demo_state = (None, demo_nan)"
  using demo_process_body_nan by (simp add: demo_nan_def)

theorem nan_guard_witness:
  "suffix ''.wav'' ''s/a.wav''
   \<and> \<not> path_exists (files demo_state) (path_join (out_dir demo_closure) (replace_wav ''s/a.wav''))
   \<and> process_body demo_ext demo_closure 0 ''s/a.wav'' demo_state = (None, demo_saved)
   \<and> (\<exists>fs1 wave feats.
      makedirs (files demo_state) (path_dirname (path_join (out_dir demo_closure) (replace_wav ''s/a.wav''))) = Inr fs1
    \<and> readwave demo_ext fs1 (path_join (wav_dir demo_closure) ''s/a.wav'')
          (case cfg demo_closure of None \<Rightarrow> False | Some b \<Rightarrow> b) = Inr wave
    \<and> embed demo_ext (model demo_closure) (is_feats_dim_768 demo_closure) 0 wave = Inr feats
    \<and> (nan_count feats = 0 \<longrightarrow>
          files demo_saved = AList.update (path_join (out_dir demo_closure) (replace_wav ''s/a.wav''))
                        (File (FloatMatrix feats)) fs1
        \<and> trace demo_saved = trace demo_state @ [Save (path_join (out_dir demo_closure) (replace_wav ''s/a.wav''))])
    \<and> (nan_count feats \<noteq> 0 \<longrightarrow>
          files demo_saved = fs1 \<and> trace demo_saved = trace demo_state @ [Print (ContainsNan ''s/a.wav'')]
        \<and> (\<forall>q c. map_of (files demo_saved) q = Some (File c) \<longleftrightarrow> map_of (files demo_state) q = Some (File c)))
    \<and> suffix ''.npy'' (path_join (out_dir demo_closure) (replace_wav ''s/a.wav''))
    \<and> (nan_count feats = 0 \<longleftrightarrow> (\<forall>row\<in>set feats. NaN \<notin> set row)))
   \<and> \<not> path_exists (files demo_state) (path_join (out_dir demo_closure_hubert) (replace_wav ''s/a.wav''))
   \<and> process_body demo_ext demo_closure_hubert 0 ''s/a.wav'' demo_state = (None, demo_nan)
   \<and> (\<exists>fs1 wave feats.
      makedirs (files demo_state) (path_dirname (path_join (out_dir demo_closure_hubert) (replace_wav ''s/a.wav''))) = Inr fs1
    \<and> readwave demo_ext fs1 (path_join (wav_dir demo_closure_hubert) ''s/a.wav'')
          (case cfg demo_closure_hubert of None \<Rightarrow> False | Some b \<Rightarrow> b) = Inr wave
    \<and> embed demo_ext (model demo_closure_hubert) (is_feats_dim_768 demo_closure_hubert) 0 wave = Inr feats
    \<and> (nan_count feats = 0 \<longrightarrow>
          files demo_nan = AList.update (path_join (out_dir demo_closure_hubert) (replace_wav ''s/a.wav''))
                        (File (FloatMatrix feats)) fs1
        \<and> trace demo_nan = trace demo_state @ [Save (path_join (out_dir demo_closure_hubert) (replace_wav ''s/a.wav''))])
    \<and> (nan_count feats \<noteq> 0 \<longrightarrow>
          files demo_nan = fs1 \<and> trace demo_nan = trace demo_state @ [Print (ContainsNan ''s/a.wav'')]
        \<and> (\<forall>q c. map_of (files demo_nan) q = Some (File c) \<longleftrightarrow> map_of (files demo_state) q = Some (File c)))
    \<and> suffix ''.npy'' (path_join (out_dir demo_closure_hubert) (replace_wav ''s/a.wav''))
    \<and> (nan_count feats = 0 \<longleftrightarrow> (\<forall>row\<in>set feats. NaN \<notin> set row)))"
  by (intro conjI demo_feature_unprepared demo_process_body_saved demo_process_body_nan'
    nan_guard [OF demo_feature_unprepared(1) demo_feature_unprepared(2) demo_process_body_saved]
    nan_guard [OF demo_feature_unprepared(1) demo_feature_unprepared(3) demo_process_body_nan'])

subsection \<open>Unsupported embedder and zero devices on the sample directory\<close>

lemma demo_unsupported:
  "''wav2vec'' \<notin> {''hubert_base'', ''hubert_base768'', ''contentvec'',
      ''contentvec768'', ''distilhubert'', ''distilhubert768''}"
  by simp

lemma demo_feature_dir_missing:
  "\<not> path_exists (files demo_state) (path_join ''d'' ''3_feature256'')"
  by code_simp

lemma demo_feature_makedirs:
  "makedirs (files demo_state) (path_join ''d'' ''3_feature256'')
     = Inr (demo_fs @ [(''d/3_feature256'', Dir)])"
  by code_simp

theorem unsupported_embedder_witness:
  "''wav2vec'' \<notin> {''hubert_base'', ''hubert_base768'', ''contentvec'',
      ''contentvec768'', ''distilhubert'', ''distilhubert768''}
   \<and> \<not> path_exists (files demo_state) (path_join ''d'' ''3_feature256'')
   \<and> makedirs (files demo_state) (path_join ''d'' ''3_feature256'')
        = Inr (demo_fs @ [(''d/3_feature256'', Dir)])
   \<and> (extract_feature demo_ext ''d'' ''wav2vec'' demo_state
      = (Inr (Some (''Not supported embedder: '' @ ''wav2vec'')), demo_state\<lparr>files := (demo_fs @ [(''d/3_feature256'', Dir)])\<rparr>)
    \<and> path_isdir (demo_fs @ [(''d/3_feature256'', Dir)]) (path_join ''d'' ''3_feature256'')
    \<and> (\<forall>q c. map_of (demo_fs @ [(''d/3_feature256'', Dir)]) q = Some (File c) \<longleftrightarrow> map_of (files demo_state) q = Some (File c))
    \<and> trace (demo_state\<lparr>files := (demo_fs @ [(''d/3_feature256'', Dir)])\<rparr>) = trace demo_state
    \<and> (\<forall>ext' name'. extract_feature ext' ''d'' name' (demo_state\<lparr>files := (demo_fs @ [(''d/3_feature256'', Dir)])\<rparr>)
          = (Inr None, demo_state\<lparr>files := (demo_fs @ [(''d/3_feature256'', Dir)])\<rparr>)))"
  by (rule conjI [OF demo_unsupported conjI [OF demo_feature_dir_missing
    conjI [OF demo_feature_makedirs
      unsupported_embedder [OF demo_unsupported demo_feature_dir_missing demo_feature_makedirs]]]])

lemma demo_no_gpu: "device_count demo_ext_no_gpu = 0"
  by (simp add: demo_ext_no_gpu_def)

lemma demo_no_gpu_facts:
  "map_of load_emb_dic ''hubert_base'' = Some (EmbFile ''hubert_base.pt'', ''hubert_base'')"
  "load_embedder demo_ext_no_gpu ''hubert_base.pt'' = Inr (0, False)"
  "todo_list (demo_fs @ [(''d/3_feature256'', Dir)]) (path_join ''d'' ''1_16k_wavs'')
     = Inr [''s/a.wav'']"
  "main_thread demo_ext_no_gpu"
  by code_simp+

theorem zero_gpu_no_worker_witness:
  "device_count demo_ext_no_gpu = 0
   \<and> map_of load_emb_dic ''hubert_base'' = Some (EmbFile ''hubert_base.pt'', ''hubert_base'')
   \<and> \<not> path_exists (files demo_state) (path_join ''d'' ''3_feature256'')
   \<and> makedirs (files demo_state) (path_join ''d'' ''3_feature256'')
        = Inr (demo_fs @ [(''d/3_feature256'', Dir)])
   \<and> load_embedder demo_ext_no_gpu ''hubert_base.pt'' = Inr (0, False)
   \<and> todo_list (demo_fs @ [(''d/3_feature256'', Dir)]) (path_join ''d'' ''1_16k_wavs'')
        = Inr [''s/a.wav'']
   \<and> main_thread demo_ext_no_gpu
   \<and> path_isdir (demo_fs @ [(''d/3_feature256'', Dir)]) (path_join ''d'' ''3_feature256'')
   \<and> files (snd (extract_feature demo_ext_no_gpu ''d'' ''hubert_base'' demo_state))
        = demo_fs @ [(''d/3_feature256'', Dir)]
   \<and> trace (snd (extract_feature demo_ext_no_gpu ''d'' ''hubert_base'' demo_state))
        = trace demo_state @ [LoadEmbedder ''hubert_base.pt'']
   \<and> fan_out [''s/a.wav''] (device_count demo_ext_no_gpu) = []
   \<and> fst (extract_feature demo_ext_no_gpu ''d'' ''hubert_base'' demo_state) = Inl ValueError
   \<and> (\<forall>q c. map_of (files (snd (extract_feature demo_ext_no_gpu ''d'' ''hubert_base'' demo_state))) q
                  = Some (File c) \<longleftrightarrow> map_of (files demo_state) q = Some (File c))"
proof -
  note t = zero_gpu_no_worker [OF demo_no_gpu, of "''hubert_base''"
      "(EmbFile ''hubert_base.pt'', ''hubert_base'')"
      demo_state "''d''" "demo_fs @ [(''d/3_feature256'', Dir)]"]
  have h: "map_of load_emb_dic ''hubert_base'' = Some (EmbFile ''hubert_base.pt'', ''hubert_base'')
        \<and> \<not> path_exists (files demo_state) (path_join ''d'' ''3_feature256'')
        \<and> makedirs (files demo_state) (path_join ''d'' ''3_feature256'')
             = Inr (demo_fs @ [(''d/3_feature256'', Dir)])"
    by (intro conjI demo_no_gpu_facts demo_feature_dir_missing demo_feature_makedirs)
  note a = mp [OF conjunct1 [OF t] h]
  note d = a [THEN conjunct1]
  note f = a [THEN conjunct2, THEN conjunct1]
  have tr: "trace (snd (extract_feature demo_ext_no_gpu ''d'' ''hubert_base'' demo_state))
        = trace demo_state @ [LoadEmbedder ''hubert_base.pt'']"
    using a [THEN conjunct2, THEN conjunct2, THEN conjunct1] by simp
  have e: "\<exists>loaded. load_embedder demo_ext_no_gpu ''hubert_base.pt'' = Inr loaded"
    by (rule exI, rule demo_no_gpu_facts(2))
  have l: "(case fst (EmbFile ''hubert_base.pt'', ''hubert_base'') of
              EmbFile emb_file \<Rightarrow> \<exists>loaded. load_embedder demo_ext_no_gpu emb_file = Inr loaded
            | LoadTransformersHubert \<Rightarrow>
                \<exists>loaded. load_transformers_hubert demo_ext_no_gpu
                  (snd (EmbFile ''hubert_base.pt'', ''hubert_base'')) = Inr loaded)
        \<and> todo_list (demo_fs @ [(''d/3_feature256'', Dir)]) (path_join ''d'' ''1_16k_wavs'')
             = Inr [''s/a.wav'']"
    using e demo_no_gpu_facts(3) by simp
  have g: "fan_out [''s/a.wav''] (device_count demo_ext_no_gpu) = []
    \<and> fst (extract_feature demo_ext_no_gpu ''d'' ''hubert_base'' demo_state) = Inl ValueError"
    using mp [OF a [THEN conjunct2, THEN conjunct2, THEN conjunct2, THEN conjunct2,
        THEN conjunct1, THEN spec, of "[''s/a.wav'']"] l] demo_no_gpu_facts(4)
    by simp
  note fr = conjunct1 [OF conjunct2 [OF t]]
  show ?thesis
    by (intro conjI demo_no_gpu demo_no_gpu_facts demo_feature_dir_missing demo_feature_makedirs
        d f tr g [THEN conjunct1] g [THEN conjunct2] fr)
qed

end
